theory Spec2Isabelle
  imports Complex_Main "HOL-Library.Log_Nat"
begin

section \<open>Data model\<close>

text \<open>
  The point-of-sale repository keeps its state in six relational tables (SQLAlchemy
  models under \<^verbatim>\<open>app/models\<close>). Each table is a list of rows in insertion order, each
  row a record with the columns the settlement code reads or writes.

  Conventions of the embedding:
  \<^item> Python \<^verbatim>\<open>int\<close> columns are \<^typ>\<open>int\<close>; primary keys are \<^typ>\<open>nat\<close>.
  \<^item> Monetary \<^verbatim>\<open>Float\<close> columns and Python floats are binary floating-point numbers with
    a 53-bit significand (type \<open>double\<close> below): every arithmetic operation rounds its
    exact result to the nearest such number, ties to the even significand.
  \<^item> A \<^verbatim>\<open>datetime\<close> is the number of microseconds since the epoch; every
    \<^verbatim>\<open>datetime.utcnow()\<close> of one service call reads the same instant \<open>now\<close>.
  \<^item> A record field that would clash with a field of another table carries the table's
    initial as a prefix (\<open>i_quantity\<close>, \<open>r_quantity\<close>, \<open>ti_quantity\<close>).
\<close>

section \<open>Double-precision arithmetic\<close>

text \<open>
  A Python \<^verbatim>\<open>float\<close> is an IEEE-754 double. Its value is a rational number; \<open>rnd\<close>
  rounds a rational to the nearest number with a 53-bit significand, ties to even:
  \<open>expo x\<close> is the binary exponent of a positive \<open>x\<close> (\<open>2 ^ expo x \<le> x < 2 ^ (expo x + 1)\<close>),
  \<open>rne\<close> rounds to the nearest integer, ties to even, and \<open>round53\<close> rounds the
  significand of a positive number. The exponent is not bounded, so the numbers that
  overflow to infinity or fall into the subnormal range in IEEE-754 are rounded like the
  others; there is no NaN and no negative zero.
\<close>

definition expo :: "rat \<Rightarrow> int" where
  "expo x = (if 1 \<le> x then bitlen \<lfloor>x\<rfloor> - 1 else - bitlen (\<lceil>1 / x\<rceil> - 1))"

definition rne :: "rat \<Rightarrow> int" where
  "rne x =
     (let f = \<lfloor>x\<rfloor>; d = x - of_int f
      in if d < 1 / 2 then f else if 1 / 2 < d then f + 1 else if even f then f else f + 1)"

definition round53 :: "rat \<Rightarrow> rat" where
  "round53 x = (let u = 2 powi (expo x - 52) in of_int (rne (x / u)) * u)"

definition rnd :: "rat \<Rightarrow> rat" where
  "rnd x = (if x = 0 then 0 else if 0 < x then round53 x else - round53 (- x))"

typedef double = "range rnd"
  morphisms val Abs_double
  by blast

text \<open>
  \<open>D q\<close> is the double nearest to \<open>q\<close>: what the Python literal or the conversion
  \<^verbatim>\<open>float(q)\<close> gives. The four operations round the exact result; comparisons are those
  of the values.
\<close>

definition D :: "rat \<Rightarrow> double" where
  "D q = Abs_double (rnd q)"

definition double_of_int :: "int \<Rightarrow> double" where
  "double_of_int n = D (of_int n)"

definition fadd :: "double \<Rightarrow> double \<Rightarrow> double" where
  "fadd a b = D (val a + val b)"

definition fsub :: "double \<Rightarrow> double \<Rightarrow> double" where
  "fsub a b = D (val a - val b)"

definition fmul :: "double \<Rightarrow> double \<Rightarrow> double" where
  "fmul a b = D (val a * val b)"

definition fdiv :: "double \<Rightarrow> double \<Rightarrow> double" where
  "fdiv a b = D (val a / val b)"

instantiation double :: zero
begin

definition zero_double :: double where
  "zero_double = D 0"

instance ..

end

instantiation double :: linorder
begin

definition less_eq_double :: "double \<Rightarrow> double \<Rightarrow> bool" where
  "less_eq_double a b = (val a \<le> val b)"

definition less_double :: "double \<Rightarrow> double \<Rightarrow> bool" where
  "less_double a b = (val a < val b)"

instance
  by standard (auto simp: less_eq_double_def less_double_def val_inject)

end

text \<open>
  The built-in \<^verbatim>\<open>sum\<close> over floats: it starts from \<open>0\<close> and adds the terms from left to
  right, rounding after each addition.
\<close>

definition py_sum :: "double list \<Rightarrow> double" where
  "py_sum xs = foldl fadd 0 xs"

type_synonym datetime = int

datatype item_type = SALE_ITEM | RENTAL_ITEM

record item =
  i_id :: nat
  item_id :: string
  i_name :: string
  price :: double
  i_quantity :: int
  i_type :: item_type

record customer =
  cu_id :: nat
  phone :: string

record coupon =
  c_id :: nat
  code :: string
  discount_percent :: double
  discount_amount :: double
  minimum_purchase :: double
  max_uses :: "int option"
  times_used :: int
  is_active :: bool
  expires_at :: "datetime option"

datatype transaction_type = SALE | RENTAL | RETURN

datatype payment_method = CASH | CREDIT | DEBIT

record transaction_item =
  ti_id :: nat
  ti_transaction_id :: nat
  ti_item_id :: nat
  ti_quantity :: int
  unit_price :: double

record transaction =
  t_id :: nat
  transaction_number :: string
  transaction_type :: transaction_type
  employee_id :: nat
  customer_id :: "nat option"
  coupon_id :: "nat option"
  subtotal :: double
  t_discount_amount :: double
  tax_amount :: double
  total :: double
  payment_method :: payment_method
  amount_tendered :: double
  change_given :: double

record rental =
  r_id :: nat
  r_customer_id :: nat
  r_item_id :: nat
  r_transaction_id :: "nat option"
  r_quantity :: int
  rental_price :: double
  rental_date :: datetime
  due_date :: datetime
  returned :: bool
  return_date :: "datetime option"
  late_fee :: double

record db =
  items :: "item list"
  customers :: "customer list"
  coupons :: "coupon list"
  transactions :: "transaction list"
  transaction_items :: "transaction_item list"
  rentals :: "rental list"

text \<open>
  Exceptions are values. \<open>cause\<close> is what was raised first; the services wrap it as
  \<^verbatim>\<open>TransactionError(str(e))\<close>, \<^verbatim>\<open>RentalError\<close> or \<^verbatim>\<open>InventoryError\<close>.
\<close>

datatype cause =
    ItemNotFound string
  | InsufficientStock string int
  | NegativeAmount
  | StockTooLow int
  | IntegrityError
  | CustomerRequired
  | NotRentable string
  | CustomerNotFound
  | ReturnItemNotFound
  | NoActiveRental
  | AlreadyReturned
  | AmountNotPositive

datatype error =
    ValueError cause
  | TransactionError cause
  | RentalError cause
  | InventoryError cause

section \<open>Coupon model (\<^verbatim>\<open>app/models/coupon.py\<close>)\<close>

definition is_expired :: "datetime \<Rightarrow> coupon \<Rightarrow> bool" where
  "is_expired now c = (case expires_at c of None \<Rightarrow> False | Some e \<Rightarrow> now > e)"

definition is_usage_exceeded :: "coupon \<Rightarrow> bool" where
  "is_usage_exceeded c = (case max_uses c of None \<Rightarrow> False | Some m \<Rightarrow> times_used c \<ge> m)"

definition is_valid :: "datetime \<Rightarrow> coupon \<Rightarrow> bool" where
  "is_valid now c = (is_active c \<and> \<not> is_expired now c \<and> \<not> is_usage_exceeded c)"

definition can_apply_to_amount :: "datetime \<Rightarrow> coupon \<Rightarrow> double \<Rightarrow> bool" where
  "can_apply_to_amount now c amount = (is_valid now c \<and> amount \<ge> minimum_purchase c)"

definition calculate_discount :: "datetime \<Rightarrow> coupon \<Rightarrow> double \<Rightarrow> double" where
  "calculate_discount now c amount =
     (if \<not> can_apply_to_amount now c amount then 0
      else if discount_percent c > 0 then fmul amount (fdiv (discount_percent c) (D 100))
      else if discount_amount c > 0 then min (discount_amount c) amount
      else 0)"

definition use :: "coupon \<Rightarrow> coupon" where
  "use c = c\<lparr>times_used := times_used c + 1\<rparr>"

text \<open>
  The checks of \<^verbatim>\<open>CouponService.create_coupon\<close> on the two discount fields, in the
  source's order; \<open>True\<close> when none of its four \<^verbatim>\<open>raise CouponError\<close> fires.
\<close>

definition create_coupon_checks :: "double \<Rightarrow> double \<Rightarrow> bool" where
  "create_coupon_checks dp da =
     (if dp = 0 \<and> da = 0 then False
      else if dp > 0 \<and> da > 0 then False
      else if dp < 0 \<or> dp > D 100 then False
      else if da < 0 then False
      else True)"

section \<open>Tables: primary keys, lookups and updates\<close>

text \<open>
  A new row gets the next integer primary key of its table (one more than the largest key
  in use, \<open>1\<close> in an empty table). \<^verbatim>\<open>query.filter_by(...).first()\<close> is the first
  matching row; a change to a loaded instance is written back to the row with its key.
\<close>

definition next_id :: "nat list \<Rightarrow> nat" where
  "next_id ids = Suc (foldr max ids 0)"

definition get_item_by_id :: "db \<Rightarrow> string \<Rightarrow> item option" where
  "get_item_by_id d k = find (\<lambda>i. item_id i = k) (items d)"

definition get_item :: "db \<Rightarrow> nat \<Rightarrow> item option" where
  "get_item d pk = find (\<lambda>i. i_id i = pk) (items d)"

definition get_rental :: "db \<Rightarrow> nat \<Rightarrow> rental option" where
  "get_rental d pk = find (\<lambda>r. r_id r = pk) (rentals d)"

definition get_coupon :: "db \<Rightarrow> nat \<Rightarrow> coupon option" where
  "get_coupon d pk = find (\<lambda>c. c_id c = pk) (coupons d)"

definition get_customer_by_phone :: "db \<Rightarrow> string \<Rightarrow> customer option" where
  "get_customer_by_phone d p = find (\<lambda>c. phone c = p) (customers d)"

definition upper_char :: "char \<Rightarrow> char" where
  "upper_char c =
     (let n = (of_char c :: nat) in if 97 \<le> n \<and> n \<le> 122 then char_of (n - 32) else c)"

definition upper :: "string \<Rightarrow> string" where
  "upper s = map upper_char s"

definition get_coupon_by_code :: "db \<Rightarrow> string \<Rightarrow> coupon option" where
  "get_coupon_by_code d cc = find (\<lambda>c. code c = upper cc) (coupons d)"

definition save_item :: "db \<Rightarrow> item \<Rightarrow> db" where
  "save_item d it = d\<lparr>items := map (\<lambda>x. if i_id x = i_id it then it else x) (items d)\<rparr>"

definition save_coupon :: "db \<Rightarrow> coupon \<Rightarrow> db" where
  "save_coupon d c = d\<lparr>coupons := map (\<lambda>x. if c_id x = c_id c then c else x) (coupons d)\<rparr>"

definition save_rental :: "db \<Rightarrow> rental \<Rightarrow> db" where
  "save_rental d r = d\<lparr>rentals := map (\<lambda>x. if r_id x = r_id r then r else x) (rentals d)\<rparr>"

definition save_transaction :: "db \<Rightarrow> transaction \<Rightarrow> db" where
  "save_transaction d t =
     d\<lparr>transactions := map (\<lambda>x. if t_id x = t_id t then t else x) (transactions d)\<rparr>"

fun cause_of :: "error \<Rightarrow> cause" where
  "cause_of (ValueError c) = c"
| "cause_of (TransactionError c) = c"
| "cause_of (RentalError c) = c"
| "cause_of (InventoryError c) = c"

section \<open>Item model (\<^verbatim>\<open>app/models/item.py\<close>)\<close>

definition add_stock :: "item \<Rightarrow> int \<Rightarrow> error + item" where
  "add_stock it amount =
     (if amount < 0 then Inl (ValueError NegativeAmount)
      else Inr (it\<lparr>i_quantity := i_quantity it + amount\<rparr>))"

definition remove_stock :: "item \<Rightarrow> int \<Rightarrow> error + item" where
  "remove_stock it amount =
     (if amount < 0 then Inl (ValueError NegativeAmount)
      else if amount > i_quantity it then Inl (ValueError (StockTooLow (i_quantity it)))
      else Inr (it\<lparr>i_quantity := i_quantity it - amount\<rparr>))"

section \<open>Inventory service (\<^verbatim>\<open>app/services/inventory_service.py\<close>)\<close>

text \<open>
  A service call returns its result, or the exception it raised, together with the
  committed database. A call that raises before \<^verbatim>\<open>db.session.commit()\<close> commits nothing.
\<close>

definition inventory_add_stock :: "db \<Rightarrow> item \<Rightarrow> int \<Rightarrow> (error + item) \<times> db" where
  "inventory_add_stock d it amount =
     (if amount \<le> 0 then (Inl (InventoryError AmountNotPositive), d)
      else (case add_stock it amount of
              Inl e \<Rightarrow> (Inl e, d)
            | Inr it' \<Rightarrow> (Inr it', save_item d it')))"

definition inventory_remove_stock :: "db \<Rightarrow> item \<Rightarrow> int \<Rightarrow> (error + item) \<times> db" where
  "inventory_remove_stock d it amount =
     (if amount \<le> 0 then (Inl (InventoryError AmountNotPositive), d)
      else if amount > i_quantity it then (Inl (InventoryError (StockTooLow (i_quantity it))), d)
      else (case remove_stock it amount of
              Inl e \<Rightarrow> (Inl e, d)
            | Inr it' \<Rightarrow> (Inr it', save_item d it')))"

section \<open>Rental model (\<^verbatim>\<open>app/models/rental.py\<close>)\<close>

definition microseconds_per_day :: int where
  "microseconds_per_day = 86400000000"

definition new_rental ::
  "datetime \<Rightarrow> nat \<Rightarrow> nat \<Rightarrow> nat \<Rightarrow> double \<Rightarrow> int \<Rightarrow> int \<Rightarrow> nat option \<Rightarrow> rental" where
  "new_rental now pk customer_pk item_pk rprice quantity rental_days transaction_pk =
     \<lparr>r_id = pk, r_customer_id = customer_pk, r_item_id = item_pk,
      r_transaction_id = transaction_pk, r_quantity = quantity, rental_price = rprice,
      rental_date = now, due_date = now + rental_days * microseconds_per_day,
      returned = False, return_date = None, late_fee = 0\<rparr>"

definition is_overdue :: "datetime \<Rightarrow> rental \<Rightarrow> bool" where
  "is_overdue now r = (if returned r then False else now > due_date r)"

definition days_overdue :: "datetime \<Rightarrow> rental \<Rightarrow> int" where
  "days_overdue now r =
     (if \<not> is_overdue now r then 0
      else max 0 ((now - due_date r) div microseconds_per_day))"

definition calculate_late_fee :: "datetime \<Rightarrow> rental \<Rightarrow> double \<Rightarrow> double" where
  "calculate_late_fee now r fee_per_day =
     fmul (fmul (double_of_int (days_overdue now r)) fee_per_day) (double_of_int (r_quantity r))"

text \<open>
  \<^verbatim>\<open>Rental.process_return\<close>: the three assignments in the source's order, then the restock
  of the related item when there is one. The result is the late fee, the updated rental
  and the database with the rental's and the item's rows written.
\<close>

definition rental_process_return ::
  "datetime \<Rightarrow> db \<Rightarrow> rental \<Rightarrow> double \<Rightarrow> error + (double \<times> rental \<times> db)" where
  "rental_process_return now d r fee_per_day =
     (let r1 = r\<lparr>returned := True\<rparr>;
          r2 = r1\<lparr>return_date := Some now\<rparr>;
          r3 = r2\<lparr>late_fee := calculate_late_fee now r2 fee_per_day\<rparr>;
          d1 = save_rental d r3
      in case get_item d1 (r_item_id r3) of
           None \<Rightarrow> Inr (late_fee r3, r3, d1)
         | Some it \<Rightarrow>
             (case add_stock it (r_quantity r3) of
                Inl e \<Rightarrow> Inl e
              | Inr it' \<Rightarrow> Inr (late_fee r3, r3, save_item d1 it')))"

section \<open>Rental service (\<^verbatim>\<open>app/services/rental_service.py\<close>)\<close>

definition rental_service_process_return ::
  "datetime \<Rightarrow> db \<Rightarrow> rental \<Rightarrow> double \<Rightarrow> (error + double) \<times> db" where
  "rental_service_process_return now d r late_fee_per_day =
     (if returned r then (Inl (RentalError AlreadyReturned), d)
      else (case rental_process_return now d r late_fee_per_day of
              Inl e \<Rightarrow> (Inl e, d)
            | Inr (fee, r', d') \<Rightarrow> (Inr fee, d')))"

section \<open>Transaction model (\<^verbatim>\<open>app/models/transaction.py\<close>)\<close>

definition new_transaction ::
  "string \<Rightarrow> transaction_type \<Rightarrow> nat \<Rightarrow> nat option \<Rightarrow> payment_method \<Rightarrow> transaction" where
  "new_transaction txn_number ttype employee customer_pk pm =
     \<lparr>t_id = 0, transaction_number = txn_number, transaction_type = ttype,
      employee_id = employee, customer_id = customer_pk, coupon_id = None,
      subtotal = 0, t_discount_amount = 0, tax_amount = 0, total = 0,
      payment_method = pm, amount_tendered = 0, change_given = 0\<rparr>"

text \<open>
  \<^verbatim>\<open>db.session.add(transaction); db.session.flush()\<close>: the row is inserted with a fresh
  key; the unique index on \<^verbatim>\<open>transaction_number\<close> rejects a number already in use.
\<close>

definition add_transaction :: "db \<Rightarrow> transaction \<Rightarrow> error + (transaction \<times> db)" where
  "add_transaction d t =
     (if transaction_number t \<in> set (map transaction_number (transactions d))
      then Inl (ValueError IntegrityError)
      else (let t' = t\<lparr>t_id := next_id (map t_id (transactions d))\<rparr>
            in Inr (t', d\<lparr>transactions := transactions d @ [t']\<rparr>)))"

definition add_transaction_item :: "db \<Rightarrow> nat \<Rightarrow> nat \<Rightarrow> int \<Rightarrow> double \<Rightarrow> db" where
  "add_transaction_item d transaction_pk item_pk quantity uprice =
     d\<lparr>transaction_items := transaction_items d @
        [\<lparr>ti_id = next_id (map ti_id (transaction_items d)),
          ti_transaction_id = transaction_pk, ti_item_id = item_pk,
          ti_quantity = quantity, unit_price = uprice\<rparr>]\<rparr>"

definition line_items :: "db \<Rightarrow> transaction \<Rightarrow> transaction_item list" where
  "line_items d t = filter (\<lambda>ti. ti_transaction_id ti = t_id t) (transaction_items d)"

definition calculate_totals :: "datetime \<Rightarrow> db \<Rightarrow> transaction \<Rightarrow> double \<Rightarrow> transaction" where
  "calculate_totals now d t tax_rate =
     (let t1 = t\<lparr>subtotal :=
                  py_sum (map (\<lambda>ti. fmul (double_of_int (ti_quantity ti)) (unit_price ti))
                            (line_items d t))\<rparr>;
          t2 = (case coupon_id t1 of
                  None \<Rightarrow> t1
                | Some cid \<Rightarrow>
                    if cid = 0 then t1
                    else (case get_coupon d cid of
                            None \<Rightarrow> t1
                          | Some c \<Rightarrow>
                              if is_valid now c
                              then t1\<lparr>t_discount_amount :=
                                        fmul (subtotal t1)
                                          (fdiv (discount_percent c) (D 100))\<rparr>
                              else t1));
          taxable_amount = fsub (subtotal t2) (t_discount_amount t2);
          t3 = t2\<lparr>tax_amount := fmul taxable_amount tax_rate\<rparr>
      in t3\<lparr>total := fadd taxable_amount (tax_amount t3)\<rparr>)"

definition apply_payment :: "transaction \<Rightarrow> double \<Rightarrow> transaction" where
  "apply_payment t tendered =
     (let t1 = t\<lparr>amount_tendered := tendered\<rparr>
      in if payment_method t1 = CASH
         then t1\<lparr>change_given := max 0 (fsub tendered (total t1))\<rparr>
         else t1)"

section \<open>Transaction service (\<^verbatim>\<open>app/services/transaction_service.py\<close>)\<close>

record cart_line =
  cl_item_id :: string
  cl_quantity :: int

text \<open>
  The body of the \<^verbatim>\<open>for item_data in items\<close> loop of \<open>create_sale\<close>, as a recursion over
  the cart: each line either raises or adds a line item and decrements the stock.
\<close>

fun sale_lines :: "nat \<Rightarrow> cart_line list \<Rightarrow> db \<Rightarrow> error + db" where
  "sale_lines tid [] d = Inr d"
| "sale_lines tid (l # ls) d =
     (case get_item_by_id d (cl_item_id l) of
        None \<Rightarrow> Inl (TransactionError (ItemNotFound (cl_item_id l)))
      | Some it \<Rightarrow>
          if i_quantity it < cl_quantity l
          then Inl (TransactionError (InsufficientStock (i_name it) (i_quantity it)))
          else (let d1 = add_transaction_item d tid (i_id it) (cl_quantity l) (price it)
                in case remove_stock it (cl_quantity l) of
                     Inl e \<Rightarrow> Inl e
                   | Inr it' \<Rightarrow> sale_lines tid ls (save_item d1 it')))"

text \<open>
  \<^verbatim>\<open>if customer_phone:\<close> of \<open>create_sale\<close>. A customer created here has no key yet when
  the transaction is built, so the transaction's \<open>customer_id\<close> stays \<open>None\<close>.
\<close>

definition sale_customer :: "db \<Rightarrow> string option \<Rightarrow> nat option \<times> db" where
  "sale_customer d customer_phone =
     (case customer_phone of
        None \<Rightarrow> (None, d)
      | Some p \<Rightarrow>
          if p = [] then (None, d)
          else (case get_customer_by_phone d p of
                  Some c \<Rightarrow> (Some (cu_id c), d)
                | None \<Rightarrow>
                    (None, d\<lparr>customers := customers d @
                       [\<lparr>cu_id = next_id (map cu_id (customers d)), phone = p\<rparr>]\<rparr>)))"

definition apply_coupon ::
  "datetime \<Rightarrow> db \<Rightarrow> transaction \<Rightarrow> string option \<Rightarrow> transaction \<times> db" where
  "apply_coupon now d t coupon_code =
     (case coupon_code of
        None \<Rightarrow> (t, d)
      | Some cc \<Rightarrow>
          if cc = [] then (t, d)
          else (case get_coupon_by_code d cc of
                  None \<Rightarrow> (t, d)
                | Some c \<Rightarrow>
                    if is_valid now c
                    then (t\<lparr>coupon_id := Some (c_id c)\<rparr>, save_coupon d (use c))
                    else (t, d)))"

definition create_sale_body ::
  "datetime \<Rightarrow> string \<Rightarrow> db \<Rightarrow> nat \<Rightarrow> cart_line list \<Rightarrow> payment_method \<Rightarrow> double \<Rightarrow>
   string option \<Rightarrow> string option \<Rightarrow> error + (transaction \<times> db)" where
  "create_sale_body now txn_number d employee cart pm tendered coupon_code customer_phone =
     (let (customer_pk, d1) = sale_customer d customer_phone
      in case add_transaction d1 (new_transaction txn_number SALE employee customer_pk pm) of
           Inl e \<Rightarrow> Inl e
         | Inr (t, d2) \<Rightarrow>
             (case sale_lines (t_id t) cart d2 of
                Inl e \<Rightarrow> Inl e
              | Inr d3 \<Rightarrow>
                  (let (t1, d4) = apply_coupon now d3 t coupon_code;
                       t2 = calculate_totals now d4 t1 (D (8 / 100));
                       t3 = apply_payment t2 tendered
                   in Inr (t3, save_transaction d4 t3))))"

text \<open>
  \<open>create_sale\<close>: the \<^verbatim>\<open>try\<close> block, and the \<^verbatim>\<open>except Exception\<close> handler that rolls the
  session back to the database of the call's start and raises \<^verbatim>\<open>TransactionError(str(e))\<close>.
  The clock and the generated transaction number are arguments.
\<close>

definition create_sale ::
  "datetime \<Rightarrow> string \<Rightarrow> db \<Rightarrow> nat \<Rightarrow> cart_line list \<Rightarrow> payment_method \<Rightarrow> double \<Rightarrow>
   string option \<Rightarrow> string option \<Rightarrow> (error + transaction) \<times> db" where
  "create_sale now txn_number d employee cart pm tendered coupon_code customer_phone =
     (case create_sale_body now txn_number d employee cart pm tendered coupon_code
             customer_phone of
        Inl e \<Rightarrow> (Inl (TransactionError (cause_of e)), d)
      | Inr (t, d') \<Rightarrow> (Inr t, d'))"

fun rental_lines ::
  "datetime \<Rightarrow> nat \<Rightarrow> nat \<Rightarrow> int \<Rightarrow> cart_line list \<Rightarrow> db \<Rightarrow> error + db" where
  "rental_lines now tid customer_pk rental_days [] d = Inr d"
| "rental_lines now tid customer_pk rental_days (l # ls) d =
     (case get_item_by_id d (cl_item_id l) of
        None \<Rightarrow> Inl (TransactionError (ItemNotFound (cl_item_id l)))
      | Some it \<Rightarrow>
          if i_type it \<noteq> RENTAL_ITEM then Inl (TransactionError (NotRentable (i_name it)))
          else if i_quantity it < cl_quantity l
          then Inl (TransactionError (InsufficientStock (i_name it) (i_quantity it)))
          else (let d1 = add_transaction_item d tid (i_id it) (cl_quantity l) (price it);
                    d2 = d1\<lparr>rentals := rentals d1 @
                           [new_rental now (next_id (map r_id (rentals d1))) customer_pk (i_id it)
                              (price it) (cl_quantity l) rental_days (Some tid)]\<rparr>
                in case remove_stock it (cl_quantity l) of
                     Inl e \<Rightarrow> Inl e
                   | Inr it' \<Rightarrow>
                       rental_lines now tid customer_pk rental_days ls (save_item d2 it')))"

definition rental_customer :: "db \<Rightarrow> string \<Rightarrow> nat \<times> db" where
  "rental_customer d p =
     (case get_customer_by_phone d p of
        Some c \<Rightarrow> (cu_id c, d)
      | None \<Rightarrow>
          (let pk = next_id (map cu_id (customers d))
           in (pk, d\<lparr>customers := customers d @ [\<lparr>cu_id = pk, phone = p\<rparr>]\<rparr>)))"

definition create_rental_body ::
  "datetime \<Rightarrow> string \<Rightarrow> db \<Rightarrow> nat \<Rightarrow> string \<Rightarrow> cart_line list \<Rightarrow> int \<Rightarrow>
   payment_method \<Rightarrow> double \<Rightarrow> error + (transaction \<times> db)" where
  "create_rental_body now txn_number d employee p cart rental_days pm tendered =
     (let (customer_pk, d1) = rental_customer d p
      in case add_transaction d1
                (new_transaction txn_number RENTAL employee (Some customer_pk) pm) of
           Inl e \<Rightarrow> Inl e
         | Inr (t, d2) \<Rightarrow>
             (case rental_lines now (t_id t) customer_pk rental_days cart d2 of
                Inl e \<Rightarrow> Inl e
              | Inr d3 \<Rightarrow>
                  (let t2 = calculate_totals now d3 t (D (8 / 100));
                       t3 = apply_payment t2 tendered
                   in Inr (t3, save_transaction d3 t3))))"

definition create_rental ::
  "datetime \<Rightarrow> string \<Rightarrow> db \<Rightarrow> nat \<Rightarrow> string option \<Rightarrow> cart_line list \<Rightarrow> int \<Rightarrow>
   payment_method \<Rightarrow> double \<Rightarrow> (error + transaction) \<times> db" where
  "create_rental now txn_number d employee customer_phone cart rental_days pm tendered =
     (case customer_phone of
        None \<Rightarrow> (Inl (TransactionError CustomerRequired), d)
      | Some p \<Rightarrow>
          if p = [] then (Inl (TransactionError CustomerRequired), d)
          else (case create_rental_body now txn_number d employee p cart rental_days pm
                       tendered of
                  Inl e \<Rightarrow> (Inl (TransactionError (cause_of e)), d)
                | Inr (t, d') \<Rightarrow> (Inr t, d')))"

text \<open>
  \<open>process_return\<close> of the transaction service. Its result dictionary is the record
  \<open>return_result\<close>. The argument \<open>quantity\<close> is the source's fourth parameter.
\<close>

record return_result =
  rr_rental :: rental
  rr_late_fee :: double
  rr_transaction :: "transaction option"
  rr_item :: item

definition find_active_rental :: "db \<Rightarrow> nat \<Rightarrow> nat \<Rightarrow> rental option" where
  "find_active_rental d customer_pk item_pk =
     find (\<lambda>r. r_customer_id r = customer_pk \<and> r_item_id r = item_pk \<and> returned r = False)
       (rentals d)"

definition process_return_body ::
  "datetime \<Rightarrow> string \<Rightarrow> db \<Rightarrow> nat \<Rightarrow> string \<Rightarrow> string \<Rightarrow> int \<Rightarrow>
   error + (return_result \<times> db)" where
  "process_return_body now txn_number d employee customer_phone item_key quantity =
     (case get_customer_by_phone d customer_phone of
        None \<Rightarrow> Inl (TransactionError CustomerNotFound)
      | Some cust \<Rightarrow>
          (case get_item_by_id d item_key of
             None \<Rightarrow> Inl (TransactionError ReturnItemNotFound)
           | Some it \<Rightarrow>
               (case find_active_rental d (cu_id cust) (i_id it) of
                  None \<Rightarrow> Inl (TransactionError NoActiveRental)
                | Some r \<Rightarrow>
                    (case rental_process_return now d r (D 2) of
                       Inl e \<Rightarrow> Inl e
                     | Inr (fee, r', d1) \<Rightarrow>
                         (let it' = (case get_item d1 (i_id it) of Some x \<Rightarrow> x | None \<Rightarrow> it)
                          in if fee > 0
                             then (case add_transaction d1
                                          ((new_transaction txn_number RETURN employee
                                              (Some (cu_id cust)) CASH)
                                             \<lparr>total := fee, subtotal := fee\<rparr>) of
                                     Inl e \<Rightarrow> Inl e
                                   | Inr (t, d2) \<Rightarrow>
                                       Inr (\<lparr>rr_rental = r', rr_late_fee = fee,
                                             rr_transaction = Some t, rr_item = it'\<rparr>, d2))
                             else Inr (\<lparr>rr_rental = r', rr_late_fee = fee,
                                        rr_transaction = None, rr_item = it'\<rparr>, d1))))))"

definition process_return ::
  "datetime \<Rightarrow> string \<Rightarrow> db \<Rightarrow> nat \<Rightarrow> string \<Rightarrow> string \<Rightarrow> int \<Rightarrow>
   (error + return_result) \<times> db" where
  "process_return now txn_number d employee customer_phone item_key quantity =
     (case process_return_body now txn_number d employee customer_phone item_key quantity of
        Inl e \<Rightarrow> (Inl (TransactionError (cause_of e)), d)
      | Inr (res, d') \<Rightarrow> (Inr res, d'))"

section \<open>Operations and properties to be verified\<close>

text \<open>
  The stock invariant of the item table, and the operations that change stock: the two
  ledger calls of the inventory service on the item with a given key, the three
  settlement operations, and the rental service's return of the rental with a given key.
  \<open>run\<close> is the committed database after one operation.
\<close>

definition stock_nonneg :: "db \<Rightarrow> bool" where
  "stock_nonneg d = list_all (\<lambda>i. 0 \<le> i_quantity i) (items d)"

datatype operation =
    LedgerAdd nat int
  | LedgerRemove nat int
  | Sale string nat "cart_line list" payment_method double "string option" "string option"
  | Rent string nat "string option" "cart_line list" int payment_method double
  | Return string nat string string int
  | RentalReturn nat double

fun run :: "datetime \<Rightarrow> db \<Rightarrow> operation \<Rightarrow> db" where
  "run now d (LedgerAdd pk n) =
     (case get_item d pk of None \<Rightarrow> d | Some it \<Rightarrow> snd (inventory_add_stock d it n))"
| "run now d (LedgerRemove pk n) =
     (case get_item d pk of None \<Rightarrow> d | Some it \<Rightarrow> snd (inventory_remove_stock d it n))"
| "run now d (Sale txn e cart pm tendered cc ph) =
     snd (create_sale now txn d e cart pm tendered cc ph)"
| "run now d (Rent txn e ph cart days pm tendered) =
     snd (create_rental now txn d e ph cart days pm tendered)"
| "run now d (Return txn e ph k q) = snd (process_return now txn d e ph k q)"
| "run now d (RentalReturn pk fee) =
     (case get_rental d pk of
        None \<Rightarrow> d
      | Some r \<Rightarrow> snd (rental_service_process_return now d r fee))"

text \<open>
  A sequence of ledger calls on one item instance; \<open>Some\<close> when every call succeeded,
  with the instance and the database after the last one. \<open>net\<close> is the signed amount
  of a call.
\<close>

datatype ledger_call = AddStock int | RemoveStock int

fun net :: "ledger_call \<Rightarrow> int" where
  "net (AddStock n) = n"
| "net (RemoveStock n) = - n"

fun ledger_calls :: "db \<Rightarrow> item \<Rightarrow> ledger_call list \<Rightarrow> (item \<times> db) option" where
  "ledger_calls d it [] = Some (it, d)"
| "ledger_calls d it (AddStock n # cs) =
     (case inventory_add_stock d it n of
        (Inl e, d') \<Rightarrow> None
      | (Inr it', d') \<Rightarrow> ledger_calls d' it' cs)"
| "ledger_calls d it (RemoveStock n # cs) =
     (case inventory_remove_stock d it n of
        (Inl e, d') \<Rightarrow> None
      | (Inr it', d') \<Rightarrow> ledger_calls d' it' cs)"




text \<open>
  Integrity of the stored data that the relational schema enforces: item primary keys are
  distinct, and every line item belongs to a stored transaction.
\<close>

definition item_keys_distinct :: "db \<Rightarrow> bool" where
  "item_keys_distinct d = distinct (map i_id (items d))"


text \<open>A cart line that cannot be served from the database: no such item, or too little stock.\<close>

definition bad_line :: "db \<Rightarrow> cart_line \<Rightarrow> bool" where
  "bad_line d l =
     (case get_item_by_id d (cl_item_id l) of
        None \<Rightarrow> True
      | Some it \<Rightarrow> cl_quantity l > i_quantity it)"


section \<open>Example data\<close>

text \<open>
  A small shop: the sale item \<open>SAL001\<close> (price 9.99, 50 in stock), a rental item, a
  percentage coupon with a minimum purchase, a fixed-amount coupon, one customer and one
  open rental of two units due seven days after time \<open>0\<close>.
\<close>

definition item_sal001 :: item where
  "item_sal001 = \<lparr>i_id = 1, item_id = ''SAL001'', i_name = ''Sale item'', price = D (999 / 100),
     i_quantity = 50, i_type = SALE_ITEM\<rparr>"

definition item_ren001 :: item where
  "item_ren001 = \<lparr>i_id = 2, item_id = ''REN001'', i_name = ''Rental item'', price = D 5,
     i_quantity = 3, i_type = RENTAL_ITEM\<rparr>"

definition coupon_save10 :: coupon where
  "coupon_save10 = \<lparr>c_id = 1, code = ''SAVE10'', discount_percent = D 10, discount_amount = 0,
     minimum_purchase = D 100, max_uses = None, times_used = 0, is_active = True,
     expires_at = None\<rparr>"

definition coupon_flat5 :: coupon where
  "coupon_flat5 = \<lparr>c_id = 2, code = ''FLAT5'', discount_percent = 0, discount_amount = D 5,
     minimum_purchase = 0, max_uses = None, times_used = 0, is_active = True,
     expires_at = None\<rparr>"

definition rental_example :: rental where
  "rental_example = \<lparr>r_id = 1, r_customer_id = 1, r_item_id = 2, r_transaction_id = None,
     r_quantity = 2, rental_price = D 5, rental_date = 0, due_date = 7 * microseconds_per_day,
     returned = False, return_date = None, late_fee = 0\<rparr>"

definition shop :: db where
  "shop = \<lparr>items = [item_sal001, item_ren001],
     customers = [\<lparr>cu_id = 1, phone = ''5550001''\<rparr>],
     coupons = [coupon_save10, coupon_flat5],
     transactions = [], transaction_items = [], rentals = [rental_example]\<rparr>"

definition five_sal001 :: "cart_line list" where
  "five_sal001 = [\<lparr>cl_item_id = ''SAL001'', cl_quantity = 5\<rparr>]"

definition sale_example :: transaction where
  "sale_example = \<lparr>t_id = 1, transaction_number = ''TXN1'', transaction_type = SALE,
     employee_id = 1, customer_id = None, coupon_id = None, subtotal = D (4995 / 100),
     t_discount_amount = 0,
     tax_amount = D (39960000000000004 / 10000000000000000),
     total = D (53946000000000005 / 1000000000000000),
     payment_method = CASH, amount_tendered = D 60,
     change_given = D (6053999999999995 / 1000000000000000)\<rparr>"

definition shop_after_sale :: db where
  "shop_after_sale = shop\<lparr>items := [item_sal001\<lparr>i_quantity := 45\<rparr>, item_ren001],
     transactions := [sale_example],
     transaction_items := [\<lparr>ti_id = 1, ti_transaction_id = 1, ti_item_id = 1,
                            ti_quantity = 5, unit_price = D (999 / 100)\<rparr>]\<rparr>"

definition returned_rental :: rental where
  "returned_rental = rental_example\<lparr>returned := True,
     return_date := Some (10 * microseconds_per_day), late_fee := 0\<rparr>"

definition shop_after_return :: db where
  "shop_after_return = shop\<lparr>items := [item_sal001, item_ren001\<lparr>i_quantity := 5\<rparr>],
     rentals := [returned_rental]\<rparr>"

definition save10_sale :: transaction where
  "save10_sale = \<lparr>t_id = 1, transaction_number = ''TXN1'', transaction_type = SALE,
     employee_id = 1, customer_id = None, coupon_id = Some 1, subtotal = D (4995 / 100),
     t_discount_amount = D (4995000000000001 / 1000000000000000),
     tax_amount = D (35964 / 10000), total = D (485514 / 10000),
     payment_method = CASH, amount_tendered = D 60,
     change_given = D (11448599999999999 / 1000000000000000)\<rparr>"

definition flat5_sale :: transaction where
  "flat5_sale = \<lparr>t_id = 1, transaction_number = ''TXN1'', transaction_type = SALE,
     employee_id = 1, customer_id = None, coupon_id = Some 2, subtotal = D (4995 / 100),
     t_discount_amount = 0,
     tax_amount = D (39960000000000004 / 10000000000000000),
     total = D (53946000000000005 / 1000000000000000),
     payment_method = CASH, amount_tendered = D 60,
     change_given = D (6053999999999995 / 1000000000000000)\<rparr>"

definition one_ren001 :: "cart_line list" where
  "one_ren001 = [\<lparr>cl_item_id = ''REN001'', cl_quantity = 1\<rparr>]"

definition rental_sale :: transaction where
  "rental_sale = \<lparr>t_id = 1, transaction_number = ''TXN3'', transaction_type = RENTAL,
     employee_id = 1, customer_id = Some 1, coupon_id = None, subtotal = D 5,
     t_discount_amount = 0, tax_amount = D (4 / 10), total = D (54 / 10),
     payment_method = CASH, amount_tendered = D 10, change_given = D (46 / 10)\<rparr>"

lemmas model_defs = create_sale_def create_sale_body_def sale_customer_def add_transaction_def
  new_transaction_def next_id_def get_item_by_id_def remove_stock_def add_transaction_item_def
  save_item_def apply_coupon_def calculate_totals_def line_items_def apply_payment_def
  save_transaction_def get_coupon_by_code_def get_coupon_def upper_def upper_char_def
  is_valid_def is_expired_def is_usage_exceeded_def use_def save_coupon_def
  get_customer_by_phone_def

lemmas data_defs = shop_def item_sal001_def item_ren001_def coupon_save10_def coupon_flat5_def
  rental_example_def five_sal001_def sale_example_def shop_after_sale_def

lemmas return_defs = rental_process_return_def calculate_late_fee_def days_overdue_def
  is_overdue_def save_rental_def get_item_def add_stock_def microseconds_per_day_def
  process_return_def process_return_body_def find_active_rental_def
  rental_service_process_return_def get_rental_def create_rental_def create_rental_body_def
  rental_customer_def new_rental_def

lemmas data2_defs = returned_rental_def shop_after_return_def save10_sale_def flat5_sale_def
  one_ren001_def rental_sale_def

section \<open>Rounding: exponent, monotonicity, idempotence\<close>

lemma rne_of_int [simp]: "rne (of_int n) = n"
  by (simp add: rne_def)

lemma rne_bounds: "\<lfloor>x\<rfloor> \<le> rne x \<and> rne x \<le> \<lfloor>x\<rfloor> + 1"
  by (simp add: rne_def Let_def)

lemma rne_floor_eq:
  assumes "\<lfloor>x\<rfloor> = \<lfloor>y\<rfloor>" "x \<le> y"
  shows "rne x \<le> rne y"
  using assms by (auto simp: rne_def Let_def)

lemma rne_mono: "x \<le> y \<Longrightarrow> rne x \<le> rne y"
proof -
  assume xy: "x \<le> y"
  then have "\<lfloor>x\<rfloor> \<le> \<lfloor>y\<rfloor>" by (rule floor_mono)
  then consider "\<lfloor>x\<rfloor> = \<lfloor>y\<rfloor>" | "\<lfloor>x\<rfloor> + 1 \<le> \<lfloor>y\<rfloor>" by linarith
  then show ?thesis
  proof cases
    case 1
    then show ?thesis using xy by (rule rne_floor_eq)
  next
    case 2
    with rne_bounds [of x] rne_bounds [of y] show ?thesis by linarith
  qed
qed

lemma expo_bounds:
  assumes "0 < x"
  shows "2 powi expo x \<le> x \<and> x < 2 powi (expo x + 1)"
proof (cases "1 \<le> x")
  case True
  let ?n = "\<lfloor>x\<rfloor>"
  from True have n: "0 < ?n" by simp
  have e: "expo x = bitlen ?n - 1" using True by (simp add: expo_def)
  from n have b1: "1 \<le> bitlen ?n" using bitlen_eq_zero_iff [of ?n] bitlen_nonneg [of ?n] by linarith
  from bitlen_bounds [OF n] have lo: "2 ^ nat (bitlen ?n - 1) \<le> ?n" and hi: "?n < 2 ^ nat (bitlen ?n)"
    by auto
  have "(2::rat) powi expo x = 2 ^ nat (bitlen ?n - 1)"
    using b1 by (simp add: e power_int_def)
  also have "\<dots> = of_int (2 ^ nat (bitlen ?n - 1))" by simp
  also have "\<dots> \<le> of_int ?n" using lo by (simp only: of_int_le_iff)
  also have "\<dots> \<le> x" by simp
  finally have 1: "2 powi expo x \<le> x" .
  have "?n + 1 \<le> 2 ^ nat (bitlen ?n)" using hi by simp
  then have "(of_int (?n + 1) :: rat) \<le> of_int (2 ^ nat (bitlen ?n))" by (simp only: of_int_le_iff)
  moreover have "x < of_int (?n + 1)" by linarith
  ultimately have "x < of_int (2 ^ nat (bitlen ?n))" by linarith
  also have "\<dots> = 2 powi (expo x + 1)"
    using b1 by (simp add: e power_int_def)
  finally have 2: "x < 2 powi (expo x + 1)" .
  from 1 2 show ?thesis ..
next
  case False
  let ?y = "1 / x"
  let ?m = "\<lceil>?y\<rceil> - 1"
  let ?k = "bitlen ?m"
  from False assms have y1: "1 < ?y" by simp
  then have m: "0 < ?m" by (simp add: less_ceiling_iff)
  have e: "expo x = - ?k" using False by (simp add: expo_def)
  from m have k1: "1 \<le> ?k" using bitlen_eq_zero_iff [of ?m] bitlen_nonneg [of ?m] by linarith
  from bitlen_bounds [OF m] have lo: "2 ^ nat (?k - 1) \<le> ?m" and hi: "?m < 2 ^ nat ?k"
    by auto
  have "(of_int ?m :: rat) < ?y" by linarith
  moreover have "(of_int (2 ^ nat (?k - 1)) :: rat) \<le> of_int ?m" using lo by (simp only: of_int_le_iff)
  ultimately have ylo: "2 ^ nat (?k - 1) < ?y" by simp
  have "?m + 1 \<le> 2 ^ nat ?k" using hi by simp
  then have "(of_int (?m + 1) :: rat) \<le> of_int (2 ^ nat ?k)" by (simp only: of_int_le_iff)
  moreover have "?y \<le> of_int (?m + 1)" by (simp add: le_of_int_ceiling)
  ultimately have "?y \<le> of_int (2 ^ nat ?k)" by (rule order_trans [rotated])
  then have yhi: "?y \<le> 2 ^ nat ?k" by simp
  have p: "(0::rat) < 2 ^ nat ?k" "(0::rat) < 2 ^ nat (?k - 1)" by simp_all
  from yhi assms p have 1: "1 / 2 ^ nat ?k \<le> x"
    by (simp add: field_simps)
  from ylo assms p have 2: "x < 1 / 2 ^ nat (?k - 1)"
    by (simp add: field_simps)
  have "(2::rat) powi expo x = 1 / 2 ^ nat ?k"
    using k1 by (simp add: e power_int_def field_simps)
  moreover have "(2::rat) powi (expo x + 1) = 1 / 2 ^ nat (?k - 1)"
  proof (cases "?k = 1")
    case True
    then show ?thesis by (simp add: e)
  next
    case False
    with k1 have "- ?k + 1 < 0" by simp
    moreover have "nat (?k - 1) = nat (- (- ?k + 1))" by simp
    ultimately show ?thesis unfolding e by (simp add: power_int_def field_simps)
  qed
  ultimately show ?thesis using 1 2 by simp
qed

lemma expo_unique:
  assumes "2 powi e \<le> x" "x < 2 powi (e + 1)"
  shows "expo x = e"
proof -
  have pos: "0 < x" using assms(1) zero_less_power_int [of "2::rat" e] by linarith
  note b = expo_bounds [OF pos]
  have "\<not> expo x < e"
  proof
    assume "expo x < e"
    then have "expo x + 1 \<le> e" by simp
    then have "(2::rat) powi (expo x + 1) \<le> 2 powi e" by (intro power_int_increasing) simp_all
    with b assms show False by linarith
  qed
  moreover have "\<not> e < expo x"
  proof
    assume "e < expo x"
    then have "e + 1 \<le> expo x" by simp
    then have "(2::rat) powi (e + 1) \<le> 2 powi expo x" by (intro power_int_increasing) simp_all
    with b assms show False by linarith
  qed
  ultimately show ?thesis by linarith
qed

lemma pow_split: "(2::rat) powi e = 2 ^ 52 * 2 powi (e - 52)"
proof -
  have "e = 52 + (e - 52)" by simp
  then have "(2::rat) powi e = 2 powi (52 + (e - 52))" by (rule arg_cong)
  also have "\<dots> = 2 powi 52 * 2 powi (e - 52)" by (subst power_int_add) simp_all
  finally show ?thesis by simp
qed

lemma pow_split1: "(2::rat) powi (e + 1) = 2 ^ 53 * 2 powi (e - 52)"
proof -
  have "e + 1 = 53 + (e - 52)" by simp
  then have "(2::rat) powi (e + 1) = 2 powi (53 + (e - 52))" by (rule arg_cong)
  also have "\<dots> = 2 powi 53 * 2 powi (e - 52)" by (subst power_int_add) simp_all
  finally show ?thesis by simp
qed

lemma mantissa_bounds:
  assumes "0 < x"
  shows "2 ^ 52 \<le> x / 2 powi (expo x - 52)" "x / 2 powi (expo x - 52) < 2 ^ 53"
    "2 ^ 52 \<le> rne (x / 2 powi (expo x - 52))" "rne (x / 2 powi (expo x - 52)) \<le> 2 ^ 53"
proof -
  let ?u = "(2::rat) powi (expo x - 52)"
  have u: "0 < ?u" by (rule zero_less_power_int) simp
  from expo_bounds [OF assms] have "2 ^ 52 * ?u \<le> x" "x < 2 ^ 53 * ?u"
    using pow_split [of "expo x"] pow_split1 [of "expo x"] by simp_all
  with u show lo: "2 ^ 52 \<le> x / ?u" and hi: "x / ?u < 2 ^ 53"
    by (simp_all add: field_simps)
  have "rne (of_int (2 ^ 52)) \<le> rne (x / ?u)" by (rule rne_mono) (use lo in simp)
  then show "2 ^ 52 \<le> rne (x / ?u)" by (simp only: rne_of_int)
  have "rne (x / ?u) \<le> rne (of_int (2 ^ 53))" by (rule rne_mono) (use hi in simp)
  then show "rne (x / ?u) \<le> 2 ^ 53" by (simp only: rne_of_int)
qed

lemma round53_bounds:
  assumes "0 < x"
  shows "2 powi expo x \<le> round53 x" "round53 x \<le> 2 powi (expo x + 1)"
proof -
  let ?u = "(2::rat) powi (expo x - 52)"
  let ?n = "rne (x / ?u)"
  have u: "0 < ?u" by (rule zero_less_power_int) simp
  have r: "round53 x = of_int ?n * ?u" by (simp add: round53_def Let_def)
  from mantissa_bounds(3,4) [OF assms]
  have "(of_int (2 ^ 52) :: rat) \<le> of_int ?n" "(of_int ?n :: rat) \<le> of_int (2 ^ 53)"
    by (simp_all only: of_int_le_iff)
  then have "2 ^ 52 * ?u \<le> of_int ?n * ?u" "of_int ?n * ?u \<le> 2 ^ 53 * ?u"
    using u by simp_all
  then show "2 powi expo x \<le> round53 x" "round53 x \<le> 2 powi (expo x + 1)"
    unfolding r using pow_split [of "expo x"] pow_split1 [of "expo x"] by simp_all
qed

lemma round53_pos: "0 < x \<Longrightarrow> 0 < round53 x"
  using round53_bounds(1) [of x] zero_less_power_int [of "2::rat" "expo x"] by linarith

lemma expo_mono:
  assumes "0 < x" "x \<le> y"
  shows "expo x \<le> expo y"
proof (rule ccontr)
  assume "\<not> expo x \<le> expo y"
  then have "expo y + 1 \<le> expo x" by simp
  then have "(2::rat) powi (expo y + 1) \<le> 2 powi expo x"
    by (intro power_int_increasing) simp_all
  moreover from assms have "0 < y" by simp
  ultimately show False using expo_bounds [OF assms(1)] expo_bounds [OF \<open>0 < y\<close>] assms(2)
    by linarith
qed

lemma round53_mono:
  assumes "0 < x" "x \<le> y"
  shows "round53 x \<le> round53 y"
proof -
  from assms have y: "0 < y" by simp
  from expo_mono [OF assms] consider "expo x = expo y" | "expo x + 1 \<le> expo y" by linarith
  then show ?thesis
  proof cases
    case 1
    let ?u = "(2::rat) powi (expo y - 52)"
    have u: "0 < ?u" by (rule zero_less_power_int) simp
    from assms(2) u have "x / ?u \<le> y / ?u" by (simp add: divide_right_mono)
    then have "rne (x / ?u) \<le> rne (y / ?u)" by (rule rne_mono)
    then have "(of_int (rne (x / ?u)) :: rat) \<le> of_int (rne (y / ?u))" by simp
    then have "of_int (rne (x / ?u)) * ?u \<le> of_int (rne (y / ?u)) * ?u"
      using u by simp
    then show ?thesis by (simp add: round53_def Let_def 1)
  next
    case 2
    then have "(2::rat) powi (expo x + 1) \<le> 2 powi expo y"
      by (intro power_int_increasing) simp_all
    with round53_bounds(2) [OF assms(1)] round53_bounds(1) [OF y] show ?thesis by linarith
  qed
qed

lemma round53_idem:
  assumes "0 < x"
  shows "round53 (round53 x) = round53 x"
proof -
  let ?e = "expo x"
  let ?u = "(2::rat) powi (?e - 52)"
  let ?n = "rne (x / ?u)"
  have u: "0 < ?u" by (rule zero_less_power_int) simp
  have r: "round53 x = of_int ?n * ?u" by (simp add: round53_def Let_def)
  from mantissa_bounds(4) [OF assms] consider "?n < 2 ^ 53" | "?n = 2 ^ 53" by linarith
  then show ?thesis
  proof cases
    case 1
    then have "(of_int ?n :: rat) < of_int (2 ^ 53)" by (simp only: of_int_less_iff)
    then have "of_int ?n * ?u < 2 ^ 53 * ?u" using u by simp
    then have "round53 x < 2 powi (?e + 1)" by (simp add: r pow_split1 [of ?e])
    with round53_bounds(1) [OF assms] have e: "expo (round53 x) = ?e" by (rule expo_unique)
    have "round53 x / ?u = of_int ?n" using u by (simp add: r)
    then show ?thesis
      unfolding round53_def [of "round53 x"] e Let_def by (simp add: r)
  next
    case 2
    then have rp: "round53 x = 2 powi (?e + 1)" by (simp add: r pow_split1 [of ?e])
    have "(2::rat) powi (?e + 1) < 2 powi (?e + 1 + 1)"
      by (intro power_int_strict_increasing) simp_all
    then have e: "expo (round53 x) = ?e + 1"
      unfolding rp by (intro expo_unique) simp_all
    let ?u' = "(2::rat) powi (?e + 1 - 52)"
    have u': "0 < ?u'" by (rule zero_less_power_int) simp
    have "round53 x = 2 ^ 52 * ?u'" unfolding rp by (rule pow_split)
    then have "round53 x / ?u' = of_int (2 ^ 52)" using u' by simp
    then have "rne (round53 x / ?u') = 2 ^ 52" by (simp only: rne_of_int)
    then have "round53 (round53 x) = 2 ^ 52 * ?u'"
      unfolding round53_def [of "round53 x"] e Let_def by simp
    also have "\<dots> = round53 x" unfolding rp by (rule pow_split [symmetric])
    finally show ?thesis .
  qed
qed

lemma rnd_zero [simp]: "rnd 0 = 0"
  by (simp add: rnd_def)

lemma rnd_minus: "rnd (- x) = - rnd x"
  by (simp add: rnd_def)

lemma rnd_pos: "0 < x \<Longrightarrow> 0 < rnd x"
  by (simp add: rnd_def round53_pos)

lemma rnd_neg: "x < 0 \<Longrightarrow> rnd x < 0"
  using rnd_pos [of "- x"] by (simp add: rnd_minus)

lemma rnd_idem [simp]: "rnd (rnd x) = rnd x"
proof -
  consider "x = 0" | "0 < x" | "x < 0" by linarith
  then show ?thesis
  proof cases
    case 1
    then show ?thesis by simp
  next
    case 2
    with round53_pos [OF 2] show ?thesis by (simp add: rnd_def round53_idem)
  next
    case 3
    then have p: "0 < - x" by simp
    from round53_pos [OF p] 3 show ?thesis
      by (simp add: rnd_def round53_idem [OF p])
  qed
qed

lemma rnd_mono:
  assumes "x \<le> y"
  shows "rnd x \<le> rnd y"
proof -
  consider "0 < x" | "x \<le> 0" "0 \<le> y" | "y < 0" using assms by linarith
  then show ?thesis
  proof cases
    case 1
    with assms have "0 < y" by simp
    with 1 assms show ?thesis by (simp add: rnd_def round53_mono)
  next
    case 2
    have "rnd x \<le> 0" using 2(1) rnd_neg [of x] by (cases "x = 0") auto
    moreover have "0 \<le> rnd y" using 2(2) rnd_pos [of y] by (cases "y = 0") auto
    ultimately show ?thesis by simp
  next
    case 3
    with assms have "x < 0" by simp
    have "round53 (- y) \<le> round53 (- x)" using 3 assms by (intro round53_mono) simp_all
    with 3 \<open>x < 0\<close> show ?thesis by (simp add: rnd_def)
  qed
qed

lemma rnd_one [simp]: "rnd 1 = 1"
  by code_simp

lemma val_D [simp]: "val (D q) = rnd q"
  by (simp add: D_def Abs_double_inverse)

lemma rnd_val [simp]: "rnd (val a) = val a"
proof -
  from val [of a] obtain q where "val a = rnd q" by auto
  then show ?thesis by simp
qed

lemma D_val [simp]: "D (val a) = a"
  by (simp add: D_def val_inverse)

lemma D_eq_iff: "(D a = D b) = (rnd a = rnd b)"
proof
  assume "D a = D b"
  then have "val (D a) = val (D b)" by simp
  then show "rnd a = rnd b" by simp
next
  assume "rnd a = rnd b"
  then show "D a = D b" by (simp add: D_def)
qed

lemma D_le_iff: "(D a \<le> D b) = (rnd a \<le> rnd b)"
  by (simp add: less_eq_double_def)

lemma D_less_iff: "(D a < D b) = (rnd a < rnd b)"
  by (simp add: less_double_def)

lemma val_zero [simp]: "val 0 = 0"
  by (simp add: zero_double_def)

lemma fadd_zero_left [simp]: "fadd 0 a = a"
  by (simp add: fadd_def)


lemma py_sum_single [simp]: "py_sum [a] = a"
  by (simp add: py_sum_def)

lemma fmul_zero_left [simp]: "fmul 0 a = 0"
  by (simp add: fmul_def zero_double_def)

lemma double_of_int_0 [simp]: "double_of_int 0 = 0"
  by (simp add: double_of_int_def zero_double_def)

text \<open>The roundings that the worked examples need, each evaluated from the definitions.\<close>

lemma rnd_evals:
  "rnd (999 / 100) = 5623870034678907 / 562949953421312"
  "rnd (5) = 5"
  "rnd (2 / 25) = 5764607523034235 / 72057594037927936"
  "rnd (28119350173394535 / 562949953421312) = 3514918771674317 / 70368744177664"
  "rnd (3514918771674317 / 70368744177664) = 3514918771674317 / 70368744177664"
  "rnd (20262127194048020328235061242495 / 5070602400912917605986812821504) = 2249548013871563 / 562949953421312"
  "rnd (2249548013871563 / 562949953421312) = 2249548013871563 / 562949953421312"
  "rnd (30368898187266099 / 562949953421312) = 7592224546816525 / 140737488355328"
  "rnd (7592224546816525 / 140737488355328) = 7592224546816525 / 140737488355328"
  "rnd (60) = 60"
  "rnd (852024754503155 / 140737488355328) = 852024754503155 / 140737488355328"
  "rnd (999 / 20) = 3514918771674317 / 70368744177664"
  "rnd (9990000000000001 / 2500000000000000) = 2249548013871563 / 562949953421312"
  "rnd (10789200000000001 / 200000000000000) = 7592224546816525 / 140737488355328"
  "rnd (1210799999999999 / 200000000000000) = 852024754503155 / 140737488355328"
  "rnd (999 / 250) = 8998192055486251 / 2251799813685248"
  "rnd (26973 / 500) = 1898056136704131 / 35184372088832"
  "rnd (0) = 0"
  "rnd (100) = 100"
  "rnd (10) = 10"
  "rnd (1 / 10) = 3602879701896397 / 36028797018963968"
  "rnd (12663829496280013144511759735849 / 2535301200456458802993406410752) = 1405967508669727 / 281474976710656"
  "rnd (1405967508669727 / 281474976710656) = 1405967508669727 / 281474976710656"
  "rnd (12653707578027541 / 281474976710656) = 3163426894506885 / 70368744177664"
  "rnd (3163426894506885 / 70368744177664) = 3163426894506885 / 70368744177664"
  "rnd (18235914474643216566029298207975 / 5070602400912917605986812821504) = 4049186424968813 / 1125899906842624"
  "rnd (4049186424968813 / 1125899906842624) = 4049186424968813 / 1125899906842624"
  "rnd (54664016737078973 / 1125899906842624) = 854125261516859 / 17592186044416"
  "rnd (854125261516859 / 17592186044416) = 854125261516859 / 17592186044416"
  "rnd (201405901148101 / 17592186044416) = 201405901148101 / 17592186044416"
  "rnd (4995000000000001 / 1000000000000000) = 1405967508669727 / 281474976710656"
  "rnd (8991 / 2500) = 4049186424968813 / 1125899906842624"
  "rnd (242757 / 5000) = 854125261516859 / 17592186044416"
  "rnd (11448599999999999 / 1000000000000000) = 201405901148101 / 17592186044416"
  "rnd (999 / 200) = 5623870034678907 / 1125899906842624"
  "rnd (1) = 1"
  "rnd (28823037615171175 / 72057594037927936) = 3602879701896397 / 9007199254740992"
  "rnd (3602879701896397 / 9007199254740992) = 3602879701896397 / 9007199254740992"
  "rnd (48638875975601357 / 9007199254740992) = 3039929748475085 / 562949953421312"
  "rnd (3039929748475085 / 562949953421312) = 3039929748475085 / 562949953421312"
  "rnd (2589569785738035 / 562949953421312) = 2589569785738035 / 562949953421312"
  "rnd (2 / 5) = 3602879701896397 / 9007199254740992"
  "rnd (27 / 5) = 3039929748475085 / 562949953421312"
  "rnd (23 / 5) = 2589569785738035 / 562949953421312"
  "rnd (2) = 2"
  "rnd (3) = 3"
  "rnd (12) = 12"
  "rnd (6) = 6"
  "rnd (50) = 50"
  "rnd (200) = 200"
  "rnd (20) = 20"
  "rnd (90071992547409925 / 4503599627370496) = 20"
  by code_simp+

lemmas float_defs = fadd_def fsub_def fmul_def fdiv_def double_of_int_def zero_double_def
  D_eq_iff D_le_iff D_less_iff py_sum_def max_def min_def rnd_evals

section \<open>Coupon discount bounds\<close>

lemma val_hundred: "val (D 100) = 100"
  by (simp add: rnd_evals)

lemma percent_discount_le:
  assumes "0 \<le> amount" "p \<le> D 100"
  shows "fmul amount (fdiv p (D 100)) \<le> amount"
proof -
  have "val p \<le> 100" using assms(2) by (simp add: less_eq_double_def rnd_evals)
  then have "val p / 100 \<le> 1" by simp
  then have "rnd (val p / 100) \<le> rnd 1" by (rule rnd_mono)
  then have r: "val (fdiv p (D 100)) \<le> 1" by (simp add: fdiv_def rnd_evals)
  have a: "0 \<le> val amount" using assms(1) by (simp add: less_eq_double_def)
  have "val amount * val (fdiv p (D 100)) \<le> val amount * 1"
    using r a by (rule mult_left_mono)
  then have "val amount * val (fdiv p (D 100)) \<le> val amount" by simp
  then have "rnd (val amount * val (fdiv p (D 100))) \<le> rnd (val amount)"
    by (rule rnd_mono)
  then show ?thesis by (simp add: fmul_def less_eq_double_def)
qed

text \<open>
  C7. For a coupon whose discount fields pass the creation checks and a purchase amount
  \<open>\<ge> 0\<close>, \<open>calculate_discount\<close> never exceeds the amount, and it is \<open>0\<close> whenever
  the coupon is not valid (inactive, expired or usage exceeded) or the amount is below the
  minimum purchase.
\<close>

theorem calculate_discount_bounded:
  assumes "create_coupon_checks (discount_percent c) (discount_amount c)"
    and "0 \<le> amount"
  shows "calculate_discount now c amount \<le> amount
       \<and> (\<not> is_valid now c \<or> amount < minimum_purchase c
            \<longrightarrow> calculate_discount now c amount = 0)"
proof -
  have p100: "discount_percent c \<le> D 100"
    using assms(1) by (auto simp: create_coupon_checks_def split: if_splits)
  have pct: "fmul amount (fdiv (discount_percent c) (D 100)) \<le> amount"
    using assms(2) p100 by (rule percent_discount_le)
  have le: "calculate_discount now c amount \<le> amount"
    unfolding calculate_discount_def using assms(2) pct by simp
  have zero: "\<not> is_valid now c \<or> amount < minimum_purchase c
      \<longrightarrow> calculate_discount now c amount = 0"
    by (auto simp: calculate_discount_def can_apply_to_amount_def)
  from le zero show ?thesis by simp
qed

theorem calculate_discount_bounded_witness:
  "create_coupon_checks (discount_percent coupon_save10) (discount_amount coupon_save10)
   \<and> 0 \<le> D 200 \<and> calculate_discount 0 coupon_save10 (D 200) = D 20
   \<and> calculate_discount 0 coupon_save10 (D 200) \<le> D 200
   \<and> 0 \<le> D 50 \<and> D 50 < minimum_purchase coupon_save10
   \<and> calculate_discount 0 coupon_save10 (D 50) = 0"
  using calculate_discount_bounded [of coupon_save10 "D 200" 0]
    calculate_discount_bounded [of coupon_save10 "D 50" 0]
  by (simp add: coupon_save10_def create_coupon_checks_def calculate_discount_def
      can_apply_to_amount_def is_valid_def is_expired_def is_usage_exceeded_def float_defs)

section \<open>Sale settlement\<close>


lemma find_map_stable:
  assumes "\<And>x. x \<in> set xs \<Longrightarrow> P (f x) = P x"
  shows "find P (map f xs) = map_option f (find P xs)"
  using assms by (induction xs) auto

lemma items_save_item [simp]:
  "items (save_item d it) = map (\<lambda>x. if i_id x = i_id it then it else x) (items d)"
  by (simp add: save_item_def)

lemma items_add_transaction_item [simp]:
  "items (add_transaction_item d tid pk q p) = items d"
  by (simp add: add_transaction_item_def)

lemma get_item_by_id_mem:
  "get_item_by_id d k = Some it \<Longrightarrow> it \<in> set (items d) \<and> item_id it = k"
  unfolding get_item_by_id_def by (auto simp: find_Some_iff)

lemma get_item_by_id_save:
  assumes dist: "item_keys_distinct d"
    and found: "get_item_by_id d k0 = Some it"
    and same: "items d1 = items d"
  shows "get_item_by_id (save_item d1 (it\<lparr>i_quantity := q\<rparr>)) k =
         (if k = k0 then Some (it\<lparr>i_quantity := q\<rparr>) else get_item_by_id d k)"
proof -
  let ?it' = "it\<lparr>i_quantity := q\<rparr>"
  let ?f = "\<lambda>x. if i_id x = i_id ?it' then ?it' else x"
  from found have mem: "it \<in> set (items d)" and key: "item_id it = k0"
    using get_item_by_id_mem by auto
  from dist have inj: "inj_on i_id (set (items d))"
    by (simp add: item_keys_distinct_def distinct_map)
  have only: "x = it" if "x \<in> set (items d)" "i_id x = i_id it" for x
    using inj mem that by (auto dest: inj_onD)
  have stable: "(item_id (?f x) = k) = (item_id x = k)" if "x \<in> set (items d)" for x
    using only [OF that] by auto
  have "find (\<lambda>i. item_id i = k) (map ?f (items d))
        = map_option ?f (find (\<lambda>i. item_id i = k) (items d))"
    by (rule find_map_stable) (rule stable)
  then have "get_item_by_id (save_item d1 ?it') k = map_option ?f (get_item_by_id d k)"
    unfolding get_item_by_id_def using same by simp
  also have "\<dots> = (if k = k0 then Some ?it' else get_item_by_id d k)"
  proof (cases "get_item_by_id d k")
    case None
    with found show ?thesis by auto
  next
    case (Some x)
    then have xm: "x \<in> set (items d)" and xk: "item_id x = k"
      using get_item_by_id_mem by auto
    show ?thesis
    proof (cases "k = k0")
      case True
      with Some found show ?thesis by simp
    next
      case False
      with xk key have "x \<noteq> it" by auto
      with only [OF xm] have "i_id x \<noteq> i_id it" by auto
      with Some False show ?thesis by simp
    qed
  qed
  finally show ?thesis .
qed

lemma item_keys_distinct_save:
  assumes "item_keys_distinct d" "items d1 = items d"
  shows "item_keys_distinct (save_item d1 (it\<lparr>i_quantity := q\<rparr>))"
proof -
  have "map i_id (map (\<lambda>x. if i_id x = i_id it then it\<lparr>i_quantity := q\<rparr> else x) xs)
        = map i_id xs" for xs
    by (induction xs) auto
  then show ?thesis using assms by (simp add: item_keys_distinct_def del: map_map)
qed

lemma remove_stock_Inr:
  "remove_stock it n = Inr it' \<Longrightarrow>
     0 \<le> n \<and> n \<le> i_quantity it \<and> it' = it\<lparr>i_quantity := i_quantity it - n\<rparr>"
  by (auto simp: remove_stock_def split: if_splits)

lemma add_stock_Inr:
  "add_stock it n = Inr it' \<Longrightarrow> 0 \<le> n \<and> it' = it\<lparr>i_quantity := i_quantity it + n\<rparr>"
  by (auto simp: add_stock_def split: if_splits)

lemma bad_line_save:
  assumes dist: "item_keys_distinct d"
    and found: "get_item_by_id d k0 = Some it"
    and same: "items d1 = items d"
    and q: "q \<le> i_quantity it"
    and bad: "bad_line d l"
  shows "bad_line (save_item d1 (it\<lparr>i_quantity := q\<rparr>)) l"
  using bad q found
  by (auto simp: bad_line_def get_item_by_id_save [OF dist found same] split: option.splits)

lemma sale_lines_bad:
  assumes "item_keys_distinct d" "\<exists>l \<in> set ls. bad_line d l"
  shows "\<exists>e. sale_lines tid ls d = Inl e"
  using assms
proof (induction ls arbitrary: d)
  case Nil
  then show ?case by simp
next
  case (Cons l ls)
  show ?case
  proof (cases "get_item_by_id d (cl_item_id l)")
    case None
    then show ?thesis by simp
  next
    case (Some it)
    show ?thesis
    proof (cases "i_quantity it < cl_quantity l")
      case True
      with Some show ?thesis by simp
    next
      case False
      show ?thesis
      proof (cases "remove_stock it (cl_quantity l)")
        case (Inl e)
        with Some False show ?thesis by (simp add: Let_def)
      next
        case (Inr it')
        let ?d1 = "add_transaction_item d tid (i_id it) (cl_quantity l) (price it)"
        from remove_stock_Inr [OF Inr]
        have n: "0 \<le> cl_quantity l"
          and it': "it' = it\<lparr>i_quantity := i_quantity it - cl_quantity l\<rparr>" by auto
        have same: "items ?d1 = items d" by simp
        have "\<not> bad_line d l" using Some False by (simp add: bad_line_def)
        with Cons.prems(2) obtain l' where l': "l' \<in> set ls" "bad_line d l'" by auto
        have "bad_line (save_item ?d1 it') l'"
          unfolding it' using Cons.prems(1) Some same _ l'(2)
          by (rule bad_line_save) (use n in simp)
        moreover have "item_keys_distinct (save_item ?d1 it')"
          unfolding it' using Cons.prems(1) same by (rule item_keys_distinct_save)
        ultimately have "\<exists>e. sale_lines tid ls (save_item ?d1 it') = Inl e"
          using Cons.IH l'(1) by blast
        with Some False Inr show ?thesis by (simp add: Let_def)
      qed
    qed
  qed
qed

lemma items_sale_customer: "items (snd (sale_customer d ph)) = items d"
  by (simp add: sale_customer_def split: option.splits)

lemma add_transaction_Inr:
  "add_transaction d t = Inr (t', d') \<Longrightarrow>
     t' = t\<lparr>t_id := next_id (map t_id (transactions d))\<rparr>
     \<and> d' = d\<lparr>transactions := transactions d @ [t']\<rparr>
     \<and> transaction_number t \<notin> set (map transaction_number (transactions d))"
  by (auto simp: add_transaction_def Let_def split: if_splits)

text \<open>
  C1. A sale whose cart has a line that names a missing item, or asks for more than the
  item's stock at the start of the call, raises \<open>TransactionError\<close> and commits
  nothing: the database after the call is the database before it, so every item quantity
  (also of earlier lines of the cart), the transaction and line-item tables and every
  coupon's usage counter are as they were.
\<close>

theorem create_sale_atomic:
  assumes "item_keys_distinct d" and "\<exists>l \<in> set cart. bad_line d l"
  shows "\<exists>c. create_sale now txn_number d employee cart pm tendered coupon_code customer_phone
           = (Inl (TransactionError c), d)"
proof -
  obtain cpk d1 where sc: "sale_customer d customer_phone = (cpk, d1)"
    by (cases "sale_customer d customer_phone")
  then have items1: "items d1 = items d"
    using items_sale_customer [of d customer_phone] by simp
  have "\<exists>e. create_sale_body now txn_number d employee cart pm tendered coupon_code
              customer_phone = Inl e"
  proof (cases "add_transaction d1 (new_transaction txn_number SALE employee cpk pm)")
    case (Inl e)
    with sc show ?thesis by (simp add: create_sale_body_def)
  next
    case (Inr p)
    obtain t d2 where p: "p = (t, d2)" by (cases p)
    from Inr p have items2: "items d2 = items d"
      using add_transaction_Inr items1 by fastforce
    have "item_keys_distinct d2"
      using assms(1) items2 by (simp add: item_keys_distinct_def)
    moreover have "\<exists>l \<in> set cart. bad_line d2 l"
      using assms(2) items2 by (simp add: bad_line_def get_item_by_id_def)
    ultimately obtain e where "sale_lines (t_id t) cart d2 = Inl e"
      using sale_lines_bad by blast
    with sc Inr p show ?thesis by (simp add: create_sale_body_def)
  qed
  then show ?thesis by (auto simp: create_sale_def)
qed


theorem create_sale_atomic_witness:
  "item_keys_distinct shop
   \<and> bad_line shop \<lparr>cl_item_id = ''REN001'', cl_quantity = 4\<rparr>
   \<and> create_sale 0 ''TXN1'' shop 1
        [\<lparr>cl_item_id = ''SAL001'', cl_quantity = 5\<rparr>, \<lparr>cl_item_id = ''REN001'', cl_quantity = 4\<rparr>]
        CASH (D 60) (Some ''FLAT5'') None
       = (Inl (TransactionError (InsufficientStock ''Rental item'' 3)), shop)"
proof -
  have dist: "item_keys_distinct shop"
    by (simp add: item_keys_distinct_def data_defs)
  have bad: "bad_line shop \<lparr>cl_item_id = ''REN001'', cl_quantity = 4\<rparr>"
    by (simp add: bad_line_def get_item_by_id_def data_defs)
  then have ex: "\<exists>l \<in> set [\<lparr>cl_item_id = ''SAL001'', cl_quantity = 5\<rparr>,
      \<lparr>cl_item_id = ''REN001'', cl_quantity = 4\<rparr>]. bad_line shop l"
    by simp
  have "create_sale 0 ''TXN1'' shop 1
        [\<lparr>cl_item_id = ''SAL001'', cl_quantity = 5\<rparr>, \<lparr>cl_item_id = ''REN001'', cl_quantity = 4\<rparr>]
        CASH (D 60) (Some ''FLAT5'') None
       = (Inl (TransactionError (InsufficientStock ''Rental item'' 3)), shop)"
    using create_sale_atomic [OF dist ex, of 0 "''TXN1''" 1 CASH "D 60" "Some ''FLAT5''" None]
    by (simp add: model_defs data_defs float_defs Let_def)
  with dist bad show ?thesis by simp
qed


lemma other_tables_save_item [simp]:
  "customers (save_item d it) = customers d"
  "coupons (save_item d it) = coupons d"
  "transactions (save_item d it) = transactions d"
  "transaction_items (save_item d it) = transaction_items d"
  "rentals (save_item d it) = rentals d"
  by (simp_all add: save_item_def)

lemma other_tables_add_transaction_item [simp]:
  "customers (add_transaction_item d tid pk q p) = customers d"
  "coupons (add_transaction_item d tid pk q p) = coupons d"
  "transactions (add_transaction_item d tid pk q p) = transactions d"
  "rentals (add_transaction_item d tid pk q p) = rentals d"
  by (simp_all add: add_transaction_item_def)


lemma calculate_totals_tax:
  "tax_amount (calculate_totals now d t r) =
     fmul (fsub (subtotal (calculate_totals now d t r))
                (t_discount_amount (calculate_totals now d t r))) r"
  "total (calculate_totals now d t r) =
     fadd (fsub (subtotal (calculate_totals now d t r))
                (t_discount_amount (calculate_totals now d t r)))
          (tax_amount (calculate_totals now d t r))"
  by (auto simp: calculate_totals_def Let_def split: option.splits)



lemma apply_payment_same:
  "t_id (apply_payment t a) = t_id t"
  "coupon_id (apply_payment t a) = coupon_id t"
  "subtotal (apply_payment t a) = subtotal t"
  "t_discount_amount (apply_payment t a) = t_discount_amount t"
  "tax_amount (apply_payment t a) = tax_amount t"
  "total (apply_payment t a) = total t"
  by (simp_all add: apply_payment_def Let_def)


lemma sale_customer_tables:
  "sale_customer d ph = (cpk, d1) \<Longrightarrow>
     items d1 = items d \<and> coupons d1 = coupons d \<and> transactions d1 = transactions d
     \<and> transaction_items d1 = transaction_items d \<and> rentals d1 = rentals d"
  by (auto simp: sale_customer_def split: option.splits if_splits)



lemma save_transaction_tables [simp]:
  "items (save_transaction d t) = items d"
  "transaction_items (save_transaction d t) = transaction_items d"
  "coupons (save_transaction d t) = coupons d"
  "rentals (save_transaction d t) = rentals d"
  "customers (save_transaction d t) = customers d"
  by (simp_all add: save_transaction_def)

lemma create_sale_Inr:
  assumes "create_sale now txn d employee cart pm tendered cc ph = (Inr t, d')"
  obtains cpk d1 t0 d2 d3 t1 d4 where
    "sale_customer d ph = (cpk, d1)"
    "add_transaction d1 (new_transaction txn SALE employee cpk pm) = Inr (t0, d2)"
    "sale_lines (t_id t0) cart d2 = Inr d3"
    "apply_coupon now d3 t0 cc = (t1, d4)"
    "t = apply_payment (calculate_totals now d4 t1 (D (8 / 100))) tendered"
    "d' = save_transaction d4 t"
proof -
  obtain cpk d1 where 1: "sale_customer d ph = (cpk, d1)" by (cases "sale_customer d ph")
  from assms have body: "create_sale_body now txn d employee cart pm tendered cc ph = Inr (t, d')"
    by (auto simp: create_sale_def split: sum.splits)
  from body 1 obtain t0 d2 where
    2: "add_transaction d1 (new_transaction txn SALE employee cpk pm) = Inr (t0, d2)"
    by (auto simp: create_sale_body_def split: sum.splits)
  from body 1 2 obtain d3 where 3: "sale_lines (t_id t0) cart d2 = Inr d3"
    by (auto simp: create_sale_body_def split: sum.splits)
  obtain t1 d4 where 4: "apply_coupon now d3 t0 cc = (t1, d4)" by (cases "apply_coupon now d3 t0 cc")
  from body 1 2 3 4 have
    "t = apply_payment (calculate_totals now d4 t1 (D (8 / 100))) tendered"
    "d' = save_transaction d4 t"
    by (auto simp: create_sale_body_def Let_def)
  with 1 2 3 4 show ?thesis using that by blast
qed



text \<open>
  The example of C3 as the claim states it fails: the stored tax and total are the doubles
  3.9960000000000004 and 53.946000000000005, which are neither the doubles nearest to
  3.996 and 53.946 nor these decimal numbers themselves.
\<close>

theorem create_sale_example_not_exact:
  "fst (create_sale 0 ''TXN1'' shop 1 five_sal001 CASH (D 60) None None) = Inr sale_example
   \<and> subtotal sale_example = D (4995 / 100)
   \<and> tax_amount sale_example \<noteq> D (3996 / 1000)
   \<and> val (tax_amount sale_example) \<noteq> 3996 / 1000
   \<and> total sale_example \<noteq> D (53946 / 1000)
   \<and> val (total sale_example) \<noteq> 53946 / 1000"
  by (simp add: model_defs data_defs float_defs Let_def)

section \<open>Rental and return\<close>

lemma fmul_commute: "fmul a b = fmul b a"
  by (simp add: fmul_def mult.commute)

lemma create_rental_Inr:
  assumes "create_rental now txn d employee ph cart days pm tendered = (Inr t, d')"
  obtains p cpk d1 t0 d2 d3 where
    "ph = Some p" "p \<noteq> []"
    "rental_customer d p = (cpk, d1)"
    "add_transaction d1 (new_transaction txn RENTAL employee (Some cpk) pm) = Inr (t0, d2)"
    "rental_lines now (t_id t0) cpk days cart d2 = Inr d3"
    "t = apply_payment (calculate_totals now d3 t0 (D (8 / 100))) tendered"
    "d' = save_transaction d3 t"
proof -
  from assms obtain p where p: "ph = Some p" "p \<noteq> []"
    by (auto simp: create_rental_def split: option.splits if_splits)
  obtain cpk d1 where 1: "rental_customer d p = (cpk, d1)" by (cases "rental_customer d p")
  from assms p have body:
    "create_rental_body now txn d employee p cart days pm tendered = Inr (t, d')"
    by (auto simp: create_rental_def split: sum.splits)
  from body 1 obtain t0 d2 where
    2: "add_transaction d1 (new_transaction txn RENTAL employee (Some cpk) pm) = Inr (t0, d2)"
    by (auto simp: create_rental_body_def split: sum.splits)
  from body 1 2 obtain d3 where 3: "rental_lines now (t_id t0) cpk days cart d2 = Inr d3"
    by (auto simp: create_rental_body_def split: sum.splits)
  from body 1 2 3 have
    "t = apply_payment (calculate_totals now d3 t0 (D (8 / 100))) tendered"
    "d' = save_transaction d3 t"
    by (auto simp: create_rental_body_def Let_def)
  with p 1 2 3 show ?thesis using that by blast
qed

text \<open>
  C9. Every transaction that \<open>create_sale\<close> or \<open>create_rental\<close> settles has
  \<open>tax_amount = 0.08 * (subtotal - discount_amount)\<close>: both call the totals
  calculation with the rate \<open>0.08\<close>, and neither takes a rate as an argument. The
  product and the difference are those of double-precision arithmetic, as in the code.
\<close>

theorem settlement_tax_rate:
  "(create_sale now txn d employee cart pm tendered cc ph = (Inr t, d')
      \<longrightarrow> tax_amount t = fmul (D (8 / 100)) (fsub (subtotal t) (t_discount_amount t)))
   \<and> (create_rental now2 txn2 d2 employee2 ph2 cart2 days pm2 tendered2 = (Inr t2, d2')
      \<longrightarrow> tax_amount t2 = fmul (D (8 / 100)) (fsub (subtotal t2) (t_discount_amount t2)))"
proof (intro conjI impI)
  assume "create_sale now txn d employee cart pm tendered cc ph = (Inr t, d')"
  then obtain t1 d4 where t: "t = apply_payment (calculate_totals now d4 t1 (D (8 / 100))) tendered"
    by (rule create_sale_Inr)
  have "tax_amount t = fmul (fsub (subtotal t) (t_discount_amount t)) (D (8 / 100))"
    unfolding t apply_payment_same by (rule calculate_totals_tax(1))
  then show "tax_amount t = fmul (D (8 / 100)) (fsub (subtotal t) (t_discount_amount t))"
    by (simp only: fmul_commute)
next
  assume "create_rental now2 txn2 d2 employee2 ph2 cart2 days pm2 tendered2 = (Inr t2, d2')"
  then obtain t0 d3 where
    t: "t2 = apply_payment (calculate_totals now2 d3 t0 (D (8 / 100))) tendered2"
    by (rule create_rental_Inr)
  have "tax_amount t2 = fmul (fsub (subtotal t2) (t_discount_amount t2)) (D (8 / 100))"
    unfolding t apply_payment_same by (rule calculate_totals_tax(1))
  then show "tax_amount t2 = fmul (D (8 / 100)) (fsub (subtotal t2) (t_discount_amount t2))"
    by (simp only: fmul_commute)
qed


lemma find_key_replace:
  assumes "key y = k"
  shows "find (\<lambda>x. key x = k) (map (\<lambda>x. if key x = k then y else x) xs) =
         (case find (\<lambda>x. key x = k) xs of None \<Rightarrow> None | Some x \<Rightarrow> Some y)"
  using assms by (induction xs) auto

lemma find_key_other:
  assumes "k \<noteq> k'" "key y = k'"
  shows "find (\<lambda>x. key x = k) (map (\<lambda>x. if key x = k' then y else x) xs) =
         find (\<lambda>x. key x = k) xs"
  using assms by (induction xs) auto

lemma get_item_save_item:
  "get_item (save_item d it') pk =
     (if pk = i_id it' then (case get_item d pk of None \<Rightarrow> None | Some x \<Rightarrow> Some it')
      else get_item d pk)"
  unfolding get_item_def items_save_item
  using find_key_replace [of i_id it' "i_id it'" "items d"]
    find_key_other [of pk "i_id it'" i_id it' "items d"]
  by simp

lemma get_rental_save_rental:
  "get_rental (save_rental d r') pk =
     (if pk = r_id r' then (case get_rental d pk of None \<Rightarrow> None | Some x \<Rightarrow> Some r')
      else get_rental d pk)"
  unfolding get_rental_def save_rental_def
  using find_key_replace [of r_id r' "r_id r'" "rentals d"]
    find_key_other [of pk "r_id r'" r_id r' "rentals d"]
  by simp

lemma late_fee_of_returned: "returned r \<Longrightarrow> calculate_late_fee now r fee = 0"
  by (simp add: calculate_late_fee_def days_overdue_def is_overdue_def)

lemma tables_save_rental [simp]:
  "items (save_rental d r) = items d"
  "customers (save_rental d r) = customers d"
  "coupons (save_rental d r) = coupons d"
  "transactions (save_rental d r) = transactions d"
  "transaction_items (save_rental d r) = transaction_items d"
  by (simp_all add: save_rental_def)

lemma rentals_save_item [simp]: "rentals (save_item d it) = rentals d"
  by (simp add: save_item_def)

lemma rental_process_return_Inr:
  assumes "rental_process_return now d r fee = Inr (f, r', d')"
  shows "r' = r\<lparr>returned := True, return_date := Some now, late_fee := f\<rparr>
     \<and> f = calculate_late_fee now (r\<lparr>returned := True\<rparr>) fee
     \<and> (case get_item d (r_item_id r) of
           None \<Rightarrow> d' = save_rental d r'
         | Some it \<Rightarrow> 0 \<le> r_quantity r
             \<and> d' = save_item (save_rental d r') (it\<lparr>i_quantity := i_quantity it + r_quantity r\<rparr>))"
proof -
  have gi: "get_item (save_rental d x) pk = get_item d pk" for x pk
    by (simp add: get_item_def)
  have lf: "calculate_late_fee now (r\<lparr>returned := True, return_date := Some now\<rparr>) fee
      = calculate_late_fee now (r\<lparr>returned := True\<rparr>) fee"
    by (simp add: calculate_late_fee_def days_overdue_def is_overdue_def)
  show ?thesis
  proof (cases "get_item d (r_item_id r)")
    case None
    with assms show ?thesis
      by (auto simp: rental_process_return_def Let_def gi lf)
  next
    case (Some it)
    with assms obtain it' where as: "add_stock it (r_quantity r) = Inr it'"
      by (auto simp: rental_process_return_def Let_def gi split: sum.splits)
    from add_stock_Inr [OF as] Some assms as show ?thesis
      by (auto simp: rental_process_return_def Let_def gi lf)
  qed
qed

text \<open>
  C6. After a first successful return of a rental through the rental service, the stored
  rental is marked returned and carries the fee charged; a second return of that rental
  fails with \<open>RentalError AlreadyReturned\<close> and commits nothing, so the late fee, the
  transaction table and the item's stock stay as the first return left them. The
  transaction service's lookup of an active rental no longer selects it either.
\<close>

theorem rental_return_twice:
  assumes loaded: "get_rental d (r_id r) = Some r"
    and first: "rental_service_process_return now d r fee = (Inr charged, d')"
  shows "\<exists>r'. get_rental d' (r_id r) = Some r' \<and> returned r' \<and> late_fee r' = charged
      \<and> rental_service_process_return now2 d' r' fee2 = (Inl (RentalError AlreadyReturned), d')
      \<and> find_active_rental d' (r_customer_id r) (r_item_id r) \<noteq> Some r'"
proof -
  from first obtain r' where
    pr: "rental_process_return now d r fee = Inr (charged, r', d')"
    by (auto simp: rental_service_process_return_def split: if_splits sum.splits)
  note c = rental_process_return_Inr [OF pr]
  from c have r': "r' = r\<lparr>returned := True, return_date := Some now, late_fee := charged\<rparr>"
    by simp
  have "rentals d' = rentals (save_rental d r')"
    using c by (cases "get_item d (r_item_id r)") auto
  then have "get_rental d' (r_id r) = get_rental (save_rental d r') (r_id r)"
    by (simp add: get_rental_def)
  also have "\<dots> = Some r'"
    using loaded by (simp add: get_rental_save_rental r')
  finally have g: "get_rental d' (r_id r) = Some r'" .
  have ret: "returned r'" and lf: "late_fee r' = charged" by (simp_all add: r')
  have again: "rental_service_process_return now2 d' r' fee2
      = (Inl (RentalError AlreadyReturned), d')"
    using ret by (simp add: rental_service_process_return_def)
  have act: "find_active_rental d' (r_customer_id r) (r_item_id r) \<noteq> Some r'"
    using ret by (auto simp: find_active_rental_def find_Some_iff)
  from g ret lf again act show ?thesis by blast
qed

lemma process_return_Inr:
  assumes "process_return now txn d e ph k q = (Inr res, d')"
  obtains cust it r f r' d1 where
    "get_customer_by_phone d ph = Some cust"
    "get_item_by_id d k = Some it"
    "find_active_rental d (cu_id cust) (i_id it) = Some r"
    "rental_process_return now d r (D 2) = Inr (f, r', d1)"
    "rr_rental res = r'" "rr_late_fee res = f"
    "items d' = items d1" "rentals d' = rentals d1"
proof -
  from assms have body: "process_return_body now txn d e ph k q = Inr (res, d')"
    by (auto simp: process_return_def split: sum.splits)
  from body obtain cust where 1: "get_customer_by_phone d ph = Some cust"
    by (auto simp: process_return_body_def split: option.splits)
  from body 1 obtain it where 2: "get_item_by_id d k = Some it"
    by (auto simp: process_return_body_def split: option.splits)
  from body 1 2 obtain r where 3: "find_active_rental d (cu_id cust) (i_id it) = Some r"
    by (auto simp: process_return_body_def split: option.splits)
  from body 1 2 3 obtain f r' d1 where 4: "rental_process_return now d r (D 2) = Inr (f, r', d1)"
    by (auto simp: process_return_body_def split: sum.splits)
  from body 1 2 3 4 have "rr_rental res = r' \<and> rr_late_fee res = f
      \<and> items d' = items d1 \<and> rentals d' = rentals d1"
    by (auto simp: process_return_body_def Let_def dest!: add_transaction_Inr
        split: if_splits sum.splits)
  with 1 2 3 4 show ?thesis using that by blast
qed


text \<open>
  C10 as the claim states it fails in its late-fee part: the rental of two units, three
  days overdue at a fee of 2.00 per day, is returned with a late fee of \<open>0\<close>, not with
  the fee \<open>3 * 2.00 * 2 = 12\<close> for the rental's quantity.
\<close>

theorem process_return_fee_not_charged:
  "find_active_rental shop 1 2 = Some rental_example
   \<and> r_quantity rental_example = 2
   \<and> (10 * microseconds_per_day - due_date rental_example) div microseconds_per_day = 3
   \<and> fmul (fmul (double_of_int 3) (D 2)) (double_of_int (r_quantity rental_example)) = D 12
   \<and> fst (process_return (10 * microseconds_per_day) ''TXN2'' shop 1 ''5550001'' ''REN001'' 1)
       = Inr \<lparr>rr_rental = returned_rental, rr_late_fee = 0, rr_transaction = None,
               rr_item = item_ren001\<lparr>i_quantity := 5\<rparr>\<rparr>
   \<and> (0 :: double) \<noteq> D 12"
  by (simp add: return_defs model_defs data_defs data2_defs float_defs Let_def)

section \<open>Worked examples of settlement and return\<close>

text \<open>
  C2. The claim that a valid fixed-amount coupon gives the sale the discount
  \<open>min(coupon.discount_amount, subtotal)\<close> fails on the code: \<open>create_sale\<close> attaches
  the coupon, and \<open>calculate_totals\<close> only multiplies by \<open>discount_percent / 100\<close>.
  Selling five \<open>SAL001\<close> with the coupon \<open>FLAT5\<close> stores a discount of \<open>0\<close> where
  the claim asks for \<open>5\<close>.
\<close>

theorem fixed_coupon_not_applied:
  "get_coupon_by_code shop ''FLAT5'' = Some coupon_flat5 \<and> is_valid 0 coupon_flat5
   \<and> 0 < discount_amount coupon_flat5 \<and> discount_percent coupon_flat5 = 0
   \<and> fst (create_sale 0 ''TXN1'' shop 1 five_sal001 CASH (D 60) (Some ''FLAT5'') None)
       = Inr flat5_sale
   \<and> coupon_id flat5_sale = Some (c_id coupon_flat5)
   \<and> t_discount_amount flat5_sale = 0
   \<and> min (discount_amount coupon_flat5) (subtotal flat5_sale) = D 5"
  by (simp add: model_defs data_defs data2_defs float_defs Let_def)

text \<open>
  C4. The claim that a coupon whose minimum purchase exceeds the subtotal is ignored fails
  on the code: \<open>create_sale\<close> tests \<open>is_valid\<close>, which does not look at the minimum
  purchase. Selling five \<open>SAL001\<close> (subtotal 49.95) with \<open>SAVE10\<close> (minimum purchase
  100) attaches the coupon, counts a use and discounts 4.995000000000001, the product of
  49.95 and 0.1 in double-precision arithmetic.
\<close>

theorem minimum_purchase_not_checked:
  "get_coupon_by_code shop ''SAVE10'' = Some coupon_save10
   \<and> fst (create_sale 0 ''TXN1'' shop 1 five_sal001 CASH (D 60) (Some ''SAVE10'') None)
       = Inr save10_sale
   \<and> subtotal save10_sale < minimum_purchase coupon_save10
   \<and> coupon_id save10_sale = Some (c_id coupon_save10)
   \<and> t_discount_amount save10_sale = D (4995000000000001 / 1000000000000000)
   \<and> map times_used (coupons shop) = [0, 0]
   \<and> map times_used
        (coupons (snd (create_sale 0 ''TXN1'' shop 1 five_sal001 CASH (D 60) (Some ''SAVE10'') None)))
       = [1, 0]"
  by (simp add: model_defs data_defs data2_defs float_defs Let_def)

text \<open>
  C5. The claim that a return sets the late fee to days overdue times fee per day times
  quantity fails on the code: \<open>Rental.process_return\<close> sets \<open>returned\<close> before it
  calculates the fee, and \<open>is_overdue\<close> is false for a returned rental. The rental of two
  units due at day 7 and returned at day 10 with a fee of 2.00 per day is charged \<open>0\<close>
  where the claim asks for \<open>12\<close>; the flag, the return date and the restock of two
  units are as claimed.
\<close>

theorem late_fee_never_charged:
  "\<not> returned rental_example
   \<and> due_date rental_example = 7 * microseconds_per_day
   \<and> rental_process_return (10 * microseconds_per_day) shop rental_example (D 2)
       = Inr (0, returned_rental, shop_after_return)
   \<and> late_fee returned_rental = 0
   \<and> of_int (max 0 ((10 * microseconds_per_day - due_date rental_example)
                      div microseconds_per_day)) * 2 * of_int (r_quantity rental_example)
       = (12 :: rat)
   \<and> fmul (fmul (double_of_int (max 0 ((10 * microseconds_per_day - due_date rental_example)
                                        div microseconds_per_day))) (D 2))
          (double_of_int (r_quantity rental_example))
       = D 12"
  by (simp add: return_defs model_defs data_defs data2_defs float_defs Let_def)

theorem rental_return_twice_witness:
  "get_rental shop (r_id rental_example) = Some rental_example
   \<and> rental_service_process_return (10 * microseconds_per_day) shop rental_example (D 2)
       = (Inr 0, shop_after_return)
   \<and> get_rental shop_after_return (r_id rental_example) = Some returned_rental
   \<and> rental_service_process_return (11 * microseconds_per_day) shop_after_return
        returned_rental (D 2) = (Inl (RentalError AlreadyReturned), shop_after_return)"
proof -
  have loaded: "get_rental shop (r_id rental_example) = Some rental_example"
    by (simp add: get_rental_def data_defs)
  have first: "rental_service_process_return (10 * microseconds_per_day) shop rental_example (D 2)
       = (Inr 0, shop_after_return)"
    by (simp add: return_defs model_defs data_defs data2_defs float_defs Let_def)
  have g: "get_rental shop_after_return (r_id rental_example) = Some returned_rental"
    by (simp add: get_rental_def data_defs data2_defs)
  from rental_return_twice [OF loaded first, of "11 * microseconds_per_day" "D 2"] g loaded first
  show ?thesis by auto
qed


theorem settlement_tax_rate_witness:
  "create_sale 0 ''TXN1'' shop 1 five_sal001 CASH (D 60) (Some ''SAVE10'') None
     = (Inr save10_sale,
        snd (create_sale 0 ''TXN1'' shop 1 five_sal001 CASH (D 60) (Some ''SAVE10'') None))
   \<and> tax_amount save10_sale =
       fmul (D (8 / 100)) (fsub (subtotal save10_sale) (t_discount_amount save10_sale))
   \<and> tax_amount save10_sale = D (35964 / 10000)
   \<and> create_rental 0 ''TXN3'' shop 1 (Some ''5550001'') one_ren001 7 CASH (D 10)
     = (Inr rental_sale,
        snd (create_rental 0 ''TXN3'' shop 1 (Some ''5550001'') one_ren001 7 CASH (D 10)))
   \<and> tax_amount rental_sale =
       fmul (D (8 / 100)) (fsub (subtotal rental_sale) (t_discount_amount rental_sale))
   \<and> tax_amount rental_sale = D (4 / 10)"
proof -
  have "fst (create_sale 0 ''TXN1'' shop 1 five_sal001 CASH (D 60) (Some ''SAVE10'') None)
      = Inr save10_sale"
    by (simp add: model_defs data_defs data2_defs float_defs Let_def)
  then have s: "create_sale 0 ''TXN1'' shop 1 five_sal001 CASH (D 60) (Some ''SAVE10'') None
     = (Inr save10_sale,
        snd (create_sale 0 ''TXN1'' shop 1 five_sal001 CASH (D 60) (Some ''SAVE10'') None))"
    by (metis prod.collapse)
  have "fst (create_rental 0 ''TXN3'' shop 1 (Some ''5550001'') one_ren001 7 CASH (D 10))
      = Inr rental_sale"
    by (simp add: return_defs model_defs data_defs data2_defs float_defs Let_def)
  then have r: "create_rental 0 ''TXN3'' shop 1 (Some ''5550001'') one_ren001 7 CASH (D 10)
     = (Inr rental_sale,
        snd (create_rental 0 ''TXN3'' shop 1 (Some ''5550001'') one_ren001 7 CASH (D 10)))"
    by (metis prod.collapse)
  from settlement_tax_rate [of 0 "''TXN1''" shop 1 five_sal001 CASH "D 60" "Some ''SAVE10''" None
      save10_sale _ 0 "''TXN3''" shop 1 "Some ''5550001''" one_ren001 7 CASH "D 10" rental_sale] s r
  have "tax_amount save10_sale =
       fmul (D (8 / 100)) (fsub (subtotal save10_sale) (t_discount_amount save10_sale))
    \<and> tax_amount rental_sale =
       fmul (D (8 / 100)) (fsub (subtotal rental_sale) (t_discount_amount rental_sale))"
    by blast
  moreover have "tax_amount save10_sale = D (35964 / 10000)
    \<and> tax_amount rental_sale = D (4 / 10)"
    by (simp add: data2_defs)
  ultimately show ?thesis using s r by blast
qed

section \<open>Stock invariant\<close>

lemma stock_nonneg_save_item:
  assumes "stock_nonneg d" "0 \<le> i_quantity it" "items d1 = items d"
  shows "stock_nonneg (save_item d1 it)"
  using assms by (auto simp: stock_nonneg_def list_all_iff)

lemma stock_nonneg_same_items: "items d1 = items d \<Longrightarrow> stock_nonneg d \<Longrightarrow> stock_nonneg d1"
  by (simp add: stock_nonneg_def)

lemma stock_nonneg_mem: "stock_nonneg d \<Longrightarrow> it \<in> set (items d) \<Longrightarrow> 0 \<le> i_quantity it"
  by (simp add: stock_nonneg_def list_all_iff)

lemma get_item_mem: "get_item d pk = Some it \<Longrightarrow> it \<in> set (items d)"
  by (auto simp: get_item_def find_Some_iff)

lemma sale_lines_stock_nonneg:
  "stock_nonneg d \<Longrightarrow> sale_lines tid ls d = Inr d' \<Longrightarrow> stock_nonneg d'"
proof (induction ls arbitrary: d)
  case Nil
  then show ?case by simp
next
  case (Cons l ls)
  from Cons.prems(2) obtain it where found: "get_item_by_id d (cl_item_id l) = Some it"
    by (auto split: option.splits)
  from Cons.prems(2) found obtain it' where rs: "remove_stock it (cl_quantity l) = Inr it'"
    by (auto simp: Let_def split: if_splits sum.splits)
  let ?d1 = "add_transaction_item d tid (i_id it) (cl_quantity l) (price it)"
  from Cons.prems(2) found rs have rec: "sale_lines tid ls (save_item ?d1 it') = Inr d'"
    by (auto simp: Let_def split: if_splits)
  from remove_stock_Inr [OF rs] have "0 \<le> i_quantity it'" by auto
  with Cons.prems(1) have "stock_nonneg (save_item ?d1 it')"
    by (rule stock_nonneg_save_item) simp
  then show ?case using rec by (rule Cons.IH)
qed

lemma rental_lines_stock_nonneg:
  "stock_nonneg d \<Longrightarrow> rental_lines now tid cpk days ls d = Inr d' \<Longrightarrow> stock_nonneg d'"
proof (induction ls arbitrary: d)
  case Nil
  then show ?case by simp
next
  case (Cons l ls)
  from Cons.prems(2) obtain it where found: "get_item_by_id d (cl_item_id l) = Some it"
    by (auto split: option.splits)
  from Cons.prems(2) found obtain it' where rs: "remove_stock it (cl_quantity l) = Inr it'"
    by (auto simp: Let_def split: if_splits sum.splits)
  let ?d1 = "add_transaction_item d tid (i_id it) (cl_quantity l) (price it)"
  let ?d2 = "?d1\<lparr>rentals := rentals ?d1 @
               [new_rental now (next_id (map r_id (rentals ?d1))) cpk (i_id it)
                  (price it) (cl_quantity l) days (Some tid)]\<rparr>"
  from Cons.prems(2) found rs
  have rec: "rental_lines now tid cpk days ls (save_item ?d2 it') = Inr d'"
    by (auto simp: Let_def split: if_splits)
  from remove_stock_Inr [OF rs] have "0 \<le> i_quantity it'" by auto
  with Cons.prems(1) have "stock_nonneg (save_item ?d2 it')"
    by (rule stock_nonneg_save_item) simp
  then show ?case using rec by (rule Cons.IH)
qed

lemma create_sale_stock_nonneg:
  assumes "stock_nonneg d"
  shows "stock_nonneg (snd (create_sale now txn d e cart pm tendered cc ph))"
proof (cases "create_sale now txn d e cart pm tendered cc ph")
  case (Pair res d')
  show ?thesis
  proof (cases res)
    case (Inl err)
    with Pair have "d' = d"
      by (auto simp: create_sale_def split: sum.splits)
    with Pair assms show ?thesis by simp
  next
    case (Inr t)
    with Pair have ok: "create_sale now txn d e cart pm tendered cc ph = (Inr t, d')" by simp
    from ok obtain cpk d1 t0 d2 d3 t1 d4 where
      sc: "sale_customer d ph = (cpk, d1)"
      and at: "add_transaction d1 (new_transaction txn SALE e cpk pm) = Inr (t0, d2)"
      and sl: "sale_lines (t_id t0) cart d2 = Inr d3"
      and ac: "apply_coupon now d3 t0 cc = (t1, d4)"
      and d': "d' = save_transaction d4 t"
      by (rule create_sale_Inr)
    have "items d2 = items d"
      using sale_customer_tables [OF sc] add_transaction_Inr [OF at] by simp
    then have "stock_nonneg d2" using assms by (rule stock_nonneg_same_items)
    then have d3: "stock_nonneg d3" using sl by (rule sale_lines_stock_nonneg)
    have "items d4 = items d3"
      using ac by (auto simp: apply_coupon_def save_coupon_def split: option.splits if_splits)
    then have "items d' = items d3" by (simp add: d')
    then have "stock_nonneg d'" using d3 by (rule stock_nonneg_same_items)
    with Pair show ?thesis by simp
  qed
qed

lemma create_rental_stock_nonneg:
  assumes "stock_nonneg d"
  shows "stock_nonneg (snd (create_rental now txn d e ph cart days pm tendered))"
proof (cases "create_rental now txn d e ph cart days pm tendered")
  case (Pair res d')
  show ?thesis
  proof (cases res)
    case (Inl err)
    with Pair have "d' = d"
      by (auto simp: create_rental_def split: sum.splits option.splits if_splits)
    with Pair assms show ?thesis by simp
  next
    case (Inr t)
    with Pair have ok: "create_rental now txn d e ph cart days pm tendered = (Inr t, d')"
      by simp
    from ok obtain p cpk d1 t0 d2 d3 where
      rc: "rental_customer d p = (cpk, d1)"
      and at: "add_transaction d1 (new_transaction txn RENTAL e (Some cpk) pm) = Inr (t0, d2)"
      and rl: "rental_lines now (t_id t0) cpk days cart d2 = Inr d3"
      and d': "d' = save_transaction d3 t"
      by (rule create_rental_Inr)
    have "items d1 = items d"
      using rc by (auto simp: rental_customer_def Let_def split: option.splits)
    then have "items d2 = items d"
      using add_transaction_Inr [OF at] by simp
    then have "stock_nonneg d2" using assms by (rule stock_nonneg_same_items)
    then have d3: "stock_nonneg d3" using rl by (rule rental_lines_stock_nonneg)
    have "items d' = items d3" by (simp add: d')
    then have "stock_nonneg d'" using d3 by (rule stock_nonneg_same_items)
    with Pair show ?thesis by simp
  qed
qed

lemma rental_process_return_stock_nonneg:
  assumes "stock_nonneg d" "rental_process_return now d r fee = Inr (f, r', d')"
  shows "stock_nonneg d'"
proof (cases "get_item d (r_item_id r)")
  case None
  with rental_process_return_Inr [OF assms(2)] have "items d' = items d" by simp
  then show ?thesis using assms(1) by (rule stock_nonneg_same_items)
next
  case (Some it)
  with rental_process_return_Inr [OF assms(2)] have
    q: "0 \<le> r_quantity r"
    and d': "d' = save_item (save_rental d r') (it\<lparr>i_quantity := i_quantity it + r_quantity r\<rparr>)"
    by simp_all
  from Some assms(1) have "0 \<le> i_quantity it"
    using get_item_mem stock_nonneg_mem by blast
  with q have "0 \<le> i_quantity (it\<lparr>i_quantity := i_quantity it + r_quantity r\<rparr>)" by simp
  with assms(1) show ?thesis unfolding d' by (rule stock_nonneg_save_item) simp
qed

lemma process_return_stock_nonneg:
  assumes "stock_nonneg d"
  shows "stock_nonneg (snd (process_return now txn d e ph k q))"
proof (cases "process_return now txn d e ph k q")
  case (Pair res d')
  show ?thesis
  proof (cases res)
    case (Inl err)
    with Pair have "d' = d"
      by (auto simp: process_return_def split: sum.splits)
    with Pair assms show ?thesis by simp
  next
    case (Inr rr)
    with Pair have ok: "process_return now txn d e ph k q = (Inr rr, d')" by simp
    from ok obtain r f r' d1 where
      pr: "rental_process_return now d r (D 2) = Inr (f, r', d1)"
      and tabs: "items d' = items d1"
      by (rule process_return_Inr)
    from assms pr have "stock_nonneg d1" by (rule rental_process_return_stock_nonneg)
    with tabs have "stock_nonneg d'" by (rule stock_nonneg_same_items)
    with Pair show ?thesis by simp
  qed
qed

lemma rental_service_process_return_stock_nonneg:
  assumes "stock_nonneg d"
  shows "stock_nonneg (snd (rental_service_process_return now d r fee))"
proof (cases "rental_process_return now d r fee")
  case (Inl e)
  with assms show ?thesis by (simp add: rental_service_process_return_def)
next
  case (Inr p)
  obtain f r' d' where p: "p = (f, r', d')" by (cases p)
  from assms Inr p have "stock_nonneg d'"
    using rental_process_return_stock_nonneg by blast
  with assms Inr p show ?thesis by (simp add: rental_service_process_return_def)
qed

lemma inventory_add_stock_Inr:
  "inventory_add_stock d it n = (Inr it', d') \<Longrightarrow>
     0 < n \<and> it' = it\<lparr>i_quantity := i_quantity it + n\<rparr> \<and> d' = save_item d it'"
  by (auto simp: inventory_add_stock_def add_stock_def split: if_splits)

lemma inventory_remove_stock_Inr:
  "inventory_remove_stock d it n = (Inr it', d') \<Longrightarrow>
     0 < n \<and> n \<le> i_quantity it \<and> it' = it\<lparr>i_quantity := i_quantity it - n\<rparr>
     \<and> d' = save_item d it'"
  by (auto simp: inventory_remove_stock_def remove_stock_def split: if_splits)

lemma inventory_Inl:
  "inventory_add_stock d it n = (Inl e, d') \<Longrightarrow> d' = d"
  "inventory_remove_stock d it n = (Inl e, d') \<Longrightarrow> d' = d"
  by (auto simp: inventory_add_stock_def inventory_remove_stock_def add_stock_def
      remove_stock_def split: if_splits)

lemma ledger_stock_nonneg:
  assumes "stock_nonneg d" "get_item d pk = Some it"
  shows "stock_nonneg (snd (inventory_add_stock d it n))"
    and "stock_nonneg (snd (inventory_remove_stock d it n))"
proof -
  from assms have q: "0 \<le> i_quantity it"
    using get_item_mem stock_nonneg_mem by blast
  show "stock_nonneg (snd (inventory_add_stock d it n))"
  proof (cases "inventory_add_stock d it n")
    case (Pair res d')
    then show ?thesis
      using assms(1) q inventory_add_stock_Inr [of d it n _ d'] inventory_Inl(1) [of d it n _ d']
      by (cases res) (auto intro!: stock_nonneg_save_item)
  qed
  show "stock_nonneg (snd (inventory_remove_stock d it n))"
  proof (cases "inventory_remove_stock d it n")
    case (Pair res d')
    then show ?thesis
      using assms(1) q inventory_remove_stock_Inr [of d it n _ d']
        inventory_Inl(2) [of d it n _ d']
      by (cases res) (auto intro!: stock_nonneg_save_item)
  qed
qed

lemma run_stock_nonneg: "stock_nonneg d \<Longrightarrow> stock_nonneg (run now d op)"
proof (cases op)
  case (LedgerAdd pk n)
  assume "stock_nonneg d"
  then show ?thesis using LedgerAdd ledger_stock_nonneg(1)
    by (auto split: option.splits)
next
  case (LedgerRemove pk n)
  assume "stock_nonneg d"
  then show ?thesis using LedgerRemove ledger_stock_nonneg(2)
    by (auto split: option.splits)
next
  case (Sale txn e cart pm tendered cc ph)
  assume "stock_nonneg d"
  then show ?thesis using Sale by (simp add: create_sale_stock_nonneg)
next
  case (Rent txn e ph cart days pm tendered)
  assume "stock_nonneg d"
  then show ?thesis using Rent by (simp add: create_rental_stock_nonneg)
next
  case (Return txn e ph k q)
  assume "stock_nonneg d"
  then show ?thesis using Return by (simp add: process_return_stock_nonneg)
next
  case (RentalReturn pk fee)
  assume "stock_nonneg d"
  then show ?thesis using RentalReturn
    by (auto simp: rental_service_process_return_stock_nonneg split: option.splits)
qed

lemma ledger_calls_Some:
  assumes "ledger_calls d it cs = Some (it', d')"
  shows "i_quantity it' = i_quantity it + sum_list (map net cs)
     \<and> (0 \<le> i_quantity it \<longrightarrow> 0 \<le> i_quantity it')
     \<and> i_id it' = i_id it
     \<and> (get_item d (i_id it) = Some it \<longrightarrow> get_item d' (i_id it) = Some it')"
  using assms
proof (induction cs arbitrary: d it)
  case Nil
  then show ?case by simp
next
  case (Cons c cs)
  show ?case
  proof (cases c)
    case (AddStock n)
    with Cons.prems obtain it1 d1 where
      1: "inventory_add_stock d it n = (Inr it1, d1)" and 2: "ledger_calls d1 it1 cs = Some (it', d')"
      by (auto split: prod.splits sum.splits)
    from inventory_add_stock_Inr [OF 1] have
      n: "0 < n" and it1: "it1 = it\<lparr>i_quantity := i_quantity it + n\<rparr>" and d1: "d1 = save_item d it1"
      by auto
    have "get_item d (i_id it) = Some it \<Longrightarrow> get_item d1 (i_id it1) = Some it1"
      by (simp add: d1 get_item_save_item it1)
    with Cons.IH [OF 2] n it1 AddStock show ?thesis by auto
  next
    case (RemoveStock n)
    with Cons.prems obtain it1 d1 where
      1: "inventory_remove_stock d it n = (Inr it1, d1)" and 2: "ledger_calls d1 it1 cs = Some (it', d')"
      by (auto split: prod.splits sum.splits)
    from inventory_remove_stock_Inr [OF 1] have
      n: "0 < n" "n \<le> i_quantity it" and it1: "it1 = it\<lparr>i_quantity := i_quantity it - n\<rparr>"
      and d1: "d1 = save_item d it1"
      by auto
    have "get_item d (i_id it) = Some it \<Longrightarrow> get_item d1 (i_id it1) = Some it1"
      by (simp add: d1 get_item_save_item it1)
    with Cons.IH [OF 2] n it1 RemoveStock show ?thesis by auto
  qed
qed

text \<open>
  C8. Every operation keeps all item quantities non-negative; a removal of more than the
  stock is rejected by the item and by the inventory service, which commits nothing; and
  after a sequence of successful ledger calls the quantity of the instance, and of its
  stored row, is the initial quantity plus the amounts added minus the amounts removed.
\<close>

theorem stock_never_negative:
  "(stock_nonneg d \<longrightarrow> stock_nonneg (run now d op))
   \<and> (i_quantity it < n \<longrightarrow>
        (\<exists>e. remove_stock it n = Inl e) \<and> (\<exists>e. inventory_remove_stock d it n = (Inl e, d)))
   \<and> (ledger_calls d it cs = Some (it', d') \<longrightarrow>
        i_quantity it' = i_quantity it + sum_list (map net cs)
        \<and> (0 \<le> i_quantity it \<longrightarrow> 0 \<le> i_quantity it')
        \<and> (get_item d (i_id it) = Some it \<longrightarrow> get_item d' (i_id it) = Some it'))"
proof (intro conjI impI)
  assume "stock_nonneg d"
  then show "stock_nonneg (run now d op)" by (rule run_stock_nonneg)
next
  assume "i_quantity it < n"
  then show "\<exists>e. remove_stock it n = Inl e" by (simp add: remove_stock_def)
next
  assume "i_quantity it < n"
  then show "\<exists>e. inventory_remove_stock d it n = (Inl e, d)"
    by (simp add: inventory_remove_stock_def)
next
  assume "ledger_calls d it cs = Some (it', d')"
  then show "i_quantity it' = i_quantity it + sum_list (map net cs)"
    using ledger_calls_Some by blast
next
  assume "ledger_calls d it cs = Some (it', d')" "0 \<le> i_quantity it"
  then show "0 \<le> i_quantity it'" using ledger_calls_Some by blast
next
  assume "ledger_calls d it cs = Some (it', d')" "get_item d (i_id it) = Some it"
  then show "get_item d' (i_id it) = Some it'" using ledger_calls_Some by blast
qed

theorem stock_never_negative_witness:
  "stock_nonneg shop
   \<and> stock_nonneg (run 0 shop (Sale ''TXN1'' 1 five_sal001 CASH (D 60) None None))
   \<and> i_quantity item_sal001 < 51
   \<and> remove_stock item_sal001 51 = Inl (ValueError (StockTooLow 50))
   \<and> inventory_remove_stock shop item_sal001 51 = (Inl (InventoryError (StockTooLow 50)), shop)
   \<and> ledger_calls shop item_sal001 [AddStock 10, RemoveStock 5]
       = Some (item_sal001\<lparr>i_quantity := 55\<rparr>,
               shop\<lparr>items := [item_sal001\<lparr>i_quantity := 55\<rparr>, item_ren001]\<rparr>)
   \<and> i_quantity item_sal001 + sum_list (map net [AddStock 10, RemoveStock 5]) = 55
   \<and> get_item shop (i_id item_sal001) = Some item_sal001
   \<and> get_item (shop\<lparr>items := [item_sal001\<lparr>i_quantity := 55\<rparr>, item_ren001]\<rparr>)
         (i_id item_sal001) = Some (item_sal001\<lparr>i_quantity := 55\<rparr>)"
proof -
  have inv: "stock_nonneg shop" by (simp add: stock_nonneg_def data_defs)
  have low: "i_quantity item_sal001 < 51" by (simp add: data_defs)
  have calls: "ledger_calls shop item_sal001 [AddStock 10, RemoveStock 5]
       = Some (item_sal001\<lparr>i_quantity := 55\<rparr>,
               shop\<lparr>items := [item_sal001\<lparr>i_quantity := 55\<rparr>, item_ren001]\<rparr>)"
    by (simp add: inventory_add_stock_def inventory_remove_stock_def add_stock_def
        remove_stock_def save_item_def data_defs)
  have row: "get_item shop (i_id item_sal001) = Some item_sal001"
    by (simp add: get_item_def data_defs)
  have rej: "remove_stock item_sal001 51 = Inl (ValueError (StockTooLow 50))"
    "inventory_remove_stock shop item_sal001 51 = (Inl (InventoryError (StockTooLow 50)), shop)"
    by (simp_all add: remove_stock_def inventory_remove_stock_def data_defs)
  have sum: "i_quantity item_sal001 + sum_list (map net [AddStock 10, RemoveStock 5]) = 55"
    by (simp add: data_defs)
  from stock_never_negative [of shop 0 "Sale ''TXN1'' 1 five_sal001 CASH (D 60) None None"
      item_sal001 51 "[AddStock 10, RemoveStock 5]" "item_sal001\<lparr>i_quantity := 55\<rparr>"
      "shop\<lparr>items := [item_sal001\<lparr>i_quantity := 55\<rparr>, item_ren001]\<rparr>"]
    inv low calls row rej sum
  show ?thesis by simp
qed

end
